theory Spec2Isabelle
  imports Complex_Main
begin

section \<open>Values shared by the two services\<close>

text \<open>
  The repository holds two FastAPI services, \<^verbatim>\<open>transaction-api/main.py\<close> and
  \<^verbatim>\<open>notification-service/main.py\<close>. Each handler is embedded as a function from the
  state of its service (table, cache, counters, log) to a result and the new state.

  A Python \<^verbatim>\<open>str\<close> is a \<open>string\<close> whose characters are code points (the
  literals of the source stay below 256: \<open>CHR 0xE7\<close> is c-cedilla, \<open>CHR 0xE3\<close> is
  a-tilde); a \<^verbatim>\<open>float\<close> is a real number, an infinity or NaN; a \<^verbatim>\<open>Dict\<close> is an association list, in
  insertion order; a point in time is a \<open>nat\<close>. A call that may raise returns a sum
  whose \<open>Inl\<close> carries \<^verbatim>\<open>str(e)\<close>.
\<close>

text \<open>
  A value of a parsed JSON document. \<open>JNum\<close> is a finite number; \<open>JInf\<close>,
  \<open>JNegInf\<close> and \<open>JNaN\<close> are the floats \<^verbatim>\<open>json.loads\<close> gives for \<^verbatim>\<open>1e309\<close> or
  \<^verbatim>\<open>Infinity\<close>, for \<^verbatim>\<open>-Infinity\<close> and for \<^verbatim>\<open>NaN\<close>.
\<close>

datatype json =
    JNull
  | JBool bool
  | JNum real
  | JInf
  | JNegInf
  | JNaN
  | JStr string
  | JList "json list"
  | JDict "(string \<times> json) list"

type_synonym dict = "(string \<times> json) list"
type_synonym timestamp = nat

text \<open>A Python \<^verbatim>\<open>float\<close>, with its comparisons against a finite bound.\<close>

datatype pyfloat = Fin real | PosInf | NegInf | NaN

definition float_gt :: "pyfloat \<Rightarrow> real \<Rightarrow> bool" where
  "float_gt a c = (case a of Fin x \<Rightarrow> x > c | PosInf \<Rightarrow> True | NegInf \<Rightarrow> False | NaN \<Rightarrow> False)"

definition float_le :: "pyfloat \<Rightarrow> real \<Rightarrow> bool" where
  "float_le a c = (case a of Fin x \<Rightarrow> x \<le> c | PosInf \<Rightarrow> False | NegInf \<Rightarrow> True | NaN \<Rightarrow> False)"

definition json_of_float :: "pyfloat \<Rightarrow> json" where
  "json_of_float a = (case a of Fin x \<Rightarrow> JNum x | PosInf \<Rightarrow> JInf | NegInf \<Rightarrow> JNegInf | NaN \<Rightarrow> JNaN)"

text \<open>
  \<^verbatim>\<open>json.dumps(value, allow_nan=False)\<close> returns for a value that holds no float
  other than finite ones, and raises ValueError otherwise.
\<close>

primrec json_compliant :: "json \<Rightarrow> bool" where
  "json_compliant JNull = True"
| "json_compliant (JBool b) = True"
| "json_compliant (JNum x) = True"
| "json_compliant JInf = False"
| "json_compliant JNegInf = False"
| "json_compliant JNaN = False"
| "json_compliant (JStr s) = True"
| "json_compliant (JList vs) = list_all (\<lambda>c. c) (map json_compliant vs)"
| "json_compliant (JDict kvs) = list_all snd (map (map_prod (\<lambda>k. k) json_compliant) kvs)"

text \<open>\<^verbatim>\<open>d[k]\<close>: the value, or KeyError.\<close>

definition getitem :: "dict \<Rightarrow> string \<Rightarrow> string + json" where
  "getitem d k = (case map_of d k of None \<Rightarrow> Inl (''KeyError: '' @ k) | Some v \<Rightarrow> Inr v)"

subsection \<open>Tables\<close>

text \<open>
  A row of \<^verbatim>\<open>transactions\<close>. A column that the database fills on insert
  (\<^verbatim>\<open>id\<close>, the timestamps, \<^verbatim>\<open>is_active\<close>) is \<open>None\<close> on the object before the
  commit; \<open>None\<close> is also SQL's NULL.
\<close>

record TransactionDB =
  td_id :: "nat option"
  td_transaction_id :: string
  td_user_id :: string
  td_amount :: pyfloat
  td_currency :: string
  td_transaction_type :: string
  td_status :: string
  td_description :: "string option"
  td_metadata :: "string option"
  td_created_at :: "timestamp option"
  td_updated_at :: "timestamp option"
  td_is_active :: "bool option"

text \<open>A row of \<^verbatim>\<open>notifications\<close>; \<^verbatim>\<open>metadata\<close> is a JSON column.\<close>

record NotificationDB =
  nd_id :: "nat option"
  nd_notification_id :: string
  nd_user_id :: string
  nd_type :: string
  nd_title :: string
  nd_message :: string
  nd_status :: string
  nd_priority :: string
  nd_metadata :: "dict option"
  nd_created_at :: "timestamp option"
  nd_updated_at :: "timestamp option"
  nd_read_at :: "timestamp option"
  nd_is_active :: "bool option"

subsection \<open>Surroundings\<close>

text \<open>
  Builtins of Python that the handlers call and whose tables are not part of the
  repository: \<^verbatim>\<open>str.upper\<close>, \<^verbatim>\<open>str()\<close> of a value (also what an f-string inserts),
  \<^verbatim>\<open>eval\<close>, and \<^verbatim>\<open>str(obj.__dict__)\<close> of a mapped row. They are parameters of the
  model.
\<close>

record python =
  str_upper :: "string \<Rightarrow> string"
  py_str :: "json \<Rightarrow> string"
  py_eval :: "string \<Rightarrow> string + json"
  str_transaction :: "TransactionDB \<Rightarrow> string"
  str_notification :: "NotificationDB \<Rightarrow> string"

text \<open>
  What the surroundings answer during one request: the clock, the random part of an
  identifier, and for each call to the database or to Redis whether it raises
  (\<open>Some\<close> of \<^verbatim>\<open>str(e)\<close>) or returns.
\<close>

record env =
  time_ms :: nat
  uuid8 :: string
  duration :: real
  now :: timestamp
  now_read_at :: timestamp
  now_updated_at :: timestamp
  import_time :: timestamp
  execute_exc :: "string option"
  commit_exc :: "string option"
  refresh_exc :: "string option"
  get_exc :: "string option"
  setex_exc :: "string option"
  expire_exc :: "string option"
  delete_record_exc :: "string option"
  delete_user_exc :: "string option"
  ping_exc :: "string option"

datatype log_level = Info | Warning | Error

record log_entry =
  level :: log_level
  event :: string
  kwargs :: dict

definition log_call :: "log_level \<Rightarrow> string \<Rightarrow> dict \<Rightarrow> log_entry" where
  "log_call l e kw = \<lparr>level = l, event = e, kwargs = kw\<rparr>"

datatype HTTPException = HTTPException nat string

definition HTTP_201_CREATED :: nat where "HTTP_201_CREATED = 201"
definition HTTP_404_NOT_FOUND :: nat where "HTTP_404_NOT_FOUND = 404"
definition HTTP_500_INTERNAL_SERVER_ERROR :: nat where "HTTP_500_INTERNAL_SERVER_ERROR = 500"

text \<open>The status FastAPI answers with when the request body fails its pydantic model.\<close>

definition HTTP_422_UNPROCESSABLE_ENTITY :: nat where "HTTP_422_UNPROCESSABLE_ENTITY = 422"

text \<open>A pydantic error: the field and the message.\<close>

type_synonym field_error = "string \<times> string"

text \<open>Redis: key to (seconds to live, value).\<close>

type_synonym redis = "string \<rightharpoonup> (nat \<times> string)"

definition setex :: "env \<Rightarrow> string \<Rightarrow> nat \<Rightarrow> string \<Rightarrow> redis \<Rightarrow> string + redis" where
  "setex e k ttl v c = (case setex_exc e of Some m \<Rightarrow> Inl m | None \<Rightarrow> Inr (c(k \<mapsto> (ttl, v))))"

text \<open>\<^verbatim>\<open>expire(key, 0)\<close> removes the key at once.\<close>

definition expire0 :: "env \<Rightarrow> string \<Rightarrow> redis \<Rightarrow> string + redis" where
  "expire0 e k c = (case expire_exc e of Some m \<Rightarrow> Inl m | None \<Rightarrow> Inr (c(k := None)))"

definition redis_delete :: "string option \<Rightarrow> string \<Rightarrow> redis \<Rightarrow> string + redis" where
  "redis_delete exc k c = (case exc of Some m \<Rightarrow> Inl m | None \<Rightarrow> Inr (c(k := None)))"

definition redis_get :: "env \<Rightarrow> string \<Rightarrow> redis \<Rightarrow> string + string option" where
  "redis_get e k c = (case get_exc e of Some m \<Rightarrow> Inl m | None \<Rightarrow> Inr (map_option snd (c k)))"

text \<open>Decimal digits of an \<^verbatim>\<open>int\<close> inside an f-string.\<close>

definition digit :: "nat \<Rightarrow> char" where
  "digit d = ''0123456789'' ! d"

function str_nat :: "nat \<Rightarrow> string" where
  "str_nat n = (if n < 10 then [digit n] else str_nat (n div 10) @ [digit (n mod 10)])"
  by pat_completeness auto
termination
  by (relation "measure (\<lambda>n. n)") auto

declare str_nat.simps [simp del]

text \<open>Words of the source's messages that hold a letter outside ASCII.\<close>

definition Transacao :: string where
  "Transacao = ''Transa'' @ [CHR 0xE7, CHR 0xE3] @ ''o''"

definition transacao :: string where
  "transacao = ''transa'' @ [CHR 0xE7, CHR 0xE3] @ ''o''"

definition Notificacao :: string where
  "Notificacao = ''Notifica'' @ [CHR 0xE7, CHR 0xE3] @ ''o''"

definition notificacao :: string where
  "notificacao = ''notifica'' @ [CHR 0xE7, CHR 0xE3] @ ''o''"

definition nao :: string where
  "nao = [CHR ''n'', CHR 0xE3, CHR ''o'']"

section \<open>What both services share\<close>

text \<open>The Redis cache and the calls made to the logger.\<close>

record service =
  cache :: redis
  logs :: "log_entry list"

definition logger :: "log_level \<Rightarrow> string \<Rightarrow> dict \<Rightarrow> 'a service_scheme \<Rightarrow> 'a service_scheme" where
  "logger l e kw w = w\<lparr>logs := logs w @ [log_call l e kw]\<rparr>"

definition commit :: "env \<Rightarrow> string + unit" where
  "commit e = (case commit_exc e of Some m \<Rightarrow> Inl m | None \<Rightarrow> Inr ())"

definition refresh :: "env \<Rightarrow> 'a \<Rightarrow> string + 'a" where
  "refresh e r = (case refresh_exc e of Some m \<Rightarrow> Inl m | None \<Rightarrow> Inr r)"

text \<open>Truth value of an \<^verbatim>\<open>Optional[Dict]\<close> and of an optional text.\<close>

definition truthy_dict :: "dict option \<Rightarrow> bool" where
  "truthy_dict m = (case m of None \<Rightarrow> False | Some d \<Rightarrow> d \<noteq> [])"

definition truthy_str :: "string option \<Rightarrow> bool" where
  "truthy_str m = (case m of None \<Rightarrow> False | Some s \<Rightarrow> s \<noteq> [])"

text \<open>
  What FastAPI answers: the handler's value with a status code, the handler's
  \<^verbatim>\<open>HTTPException\<close>, or the errors of a body that failed its model.
\<close>

datatype 'a response =
    Returned nat 'a
  | Failed nat string
  | Unprocessable "field_error list"

fun status_code :: "'a response \<Rightarrow> nat" where
  "status_code (Returned c _) = c"
| "status_code (Failed c _) = c"
| "status_code (Unprocessable _) = HTTP_422_UNPROCESSABLE_ENTITY"

definition errors_of :: "string \<Rightarrow> string + 'a \<Rightarrow> field_error list" where
  "errors_of loc r = (case r of Inl m \<Rightarrow> [(loc, m)] | Inr _ \<Rightarrow> [])"

text \<open>A value offered to a field declared \<^verbatim>\<open>Optional[Dict]\<close>.\<close>

definition optional_dict :: "json \<Rightarrow> string + dict option" where
  "optional_dict v =
     (case v of JNull \<Rightarrow> Inr None | JDict d \<Rightarrow> Inr (Some d) | _ \<Rightarrow> Inl ''dict_type'')"

subsection \<open>Health endpoint (the same code in both services)\<close>

record HealthResponse =
  h_status :: string
  h_timestamp :: timestamp
  h_version :: string
  h_database :: string
  h_redis :: string
  h_uptime :: real

text \<open>\<^verbatim>\<open>try: body except Exception as e: handler(str(e))\<close>\<close>

definition try_except :: "string + 'a \<Rightarrow> (string \<Rightarrow> 'a) \<Rightarrow> 'a" where
  "try_except body handler = (case body of Inl exc \<Rightarrow> handler exc | Inr v \<Rightarrow> v)"

text \<open>The two probes: \<^verbatim>\<open>session.execute("SELECT 1")\<close> and \<^verbatim>\<open>redis_client.ping()\<close>.\<close>

definition select_1 :: "env \<Rightarrow> string + unit" where
  "select_1 e = (case execute_exc e of Some m \<Rightarrow> Inl m | None \<Rightarrow> Inr ())"

definition ping :: "env \<Rightarrow> string + unit" where
  "ping e = (case ping_exc e of Some m \<Rightarrow> Inl m | None \<Rightarrow> Inr ())"

text \<open>
  \<^verbatim>\<open>health_check\<close>; \<open>Inl\<close> would be an exception leaving the handler.
\<close>

definition health_check :: "env \<Rightarrow> string + HealthResponse" where
  "health_check e =
     (let db_status =
            try_except (case select_1 e of Inl exc \<Rightarrow> Inl exc | Inr _ \<Rightarrow> Inr ''healthy'')
              (\<lambda>exc. ''unhealthy: '' @ exc);
          redis_status =
            try_except (case ping e of Inl exc \<Rightarrow> Inl exc | Inr _ \<Rightarrow> Inr ''healthy'')
              (\<lambda>exc. ''unhealthy: '' @ exc);
          uptime = duration e
      in Inr \<lparr>h_status = (if db_status = ''healthy'' \<and> redis_status = ''healthy''
                           then ''healthy'' else ''degraded''),
              h_timestamp = now e, h_version = ''1.0.0'', h_database = db_status,
              h_redis = redis_status, h_uptime = uptime\<rparr>)"

section \<open>Transaction service\<close>

subsection \<open>Models\<close>

text \<open>
  The JSON body of \<^verbatim>\<open>POST /transactions\<close>, its fields already of their declared
  types; a field with a default may be absent.
\<close>

record TransactionBody =
  tb_user_id :: string
  tb_amount :: pyfloat
  tb_currency :: "string option"
  tb_transaction_type :: string
  tb_description :: "string option"
  tb_metadata :: "dict option"

record TransactionCreate =
  tc_user_id :: string
  tc_amount :: pyfloat
  tc_currency :: string
  tc_transaction_type :: string
  tc_description :: "string option"
  tc_metadata :: "dict option"

record TransactionResponse =
  tr_id :: nat
  tr_transaction_id :: string
  tr_user_id :: string
  tr_amount :: pyfloat
  tr_currency :: string
  tr_transaction_type :: string
  tr_status :: string
  tr_description :: "string option"
  tr_metadata :: "dict option"
  tr_created_at :: timestamp
  tr_updated_at :: timestamp

definition allowed_transaction_types :: "string list" where
  "allowed_transaction_types = [''credit'', ''debit'', ''transfer'']"

definition validate_transaction_type :: "string \<Rightarrow> string + string" where
  "validate_transaction_type v =
     (if v \<notin> set allowed_transaction_types
      then Inl ''transaction_type deve ser um dos seguintes''
      else Inr v)"

definition validate_currency :: "python \<Rightarrow> string \<Rightarrow> string + string" where
  "validate_currency p v =
     (if length v \<noteq> 3 then Inl ''currency deve ter exatamente 3 caracteres''
      else Inr (str_upper p v))"

text \<open>\<^verbatim>\<open>Field(..., gt=0)\<close> on \<^verbatim>\<open>amount\<close>.\<close>

definition field_amount :: "pyfloat \<Rightarrow> string + pyfloat" where
  "field_amount v = (if float_gt v 0 then Inr v else Inl ''greater_than'')"

text \<open>
  \<^verbatim>\<open>Field(default="BRL", max_length=3)\<close> and then the validator; the default is
  taken as it is.
\<close>

definition field_currency :: "python \<Rightarrow> string option \<Rightarrow> string + string" where
  "field_currency p v =
     (case v of
        None \<Rightarrow> Inr ''BRL''
      | Some s \<Rightarrow> if length s > 3 then Inl ''string_too_long'' else validate_currency p s)"

text \<open>
  Building a \<^verbatim>\<open>TransactionCreate\<close> from the body: every field is checked, the
  errors are collected, and the model exists only when there is none.
\<close>

definition TransactionCreate :: "python \<Rightarrow> TransactionBody \<Rightarrow> field_error list + TransactionCreate" where
  "TransactionCreate p b =
     (case (field_amount (tb_amount b), field_currency p (tb_currency b),
            validate_transaction_type (tb_transaction_type b)) of
        (Inr a, Inr c, Inr t) \<Rightarrow>
          Inr \<lparr>tc_user_id = tb_user_id b, tc_amount = a, tc_currency = c,
               tc_transaction_type = t, tc_description = tb_description b,
               tc_metadata = tb_metadata b\<rparr>
      | (ra, rc, rt) \<Rightarrow>
          Inl (errors_of ''amount'' ra @ errors_of ''currency'' rc
               @ errors_of ''transaction_type'' rt))"

text \<open>
  \<^verbatim>\<open>TransactionResponse(...)\<close> and \<^verbatim>\<open>TransactionResponse.from_orm\<close> check the
  required fields: \<^verbatim>\<open>id\<close> and the two timestamps must not be \<open>None\<close>, and
  \<^verbatim>\<open>metadata\<close> must be a dict or \<open>None\<close>.
\<close>

definition new_TransactionResponse ::
  "TransactionDB \<Rightarrow> string + dict option \<Rightarrow> string + TransactionResponse" where
  "new_TransactionResponse r md =
     (case (td_id r, td_created_at r, td_updated_at r, md) of
        (Some i, Some c, Some u, Inr m) \<Rightarrow>
          Inr \<lparr>tr_id = i, tr_transaction_id = td_transaction_id r, tr_user_id = td_user_id r,
               tr_amount = td_amount r, tr_currency = td_currency r,
               tr_transaction_type = td_transaction_type r, tr_status = td_status r,
               tr_description = td_description r, tr_metadata = m,
               tr_created_at = c, tr_updated_at = u\<rparr>
      | _ \<Rightarrow> Inl ''ValidationError for TransactionResponse'')"

text \<open>
  \<^verbatim>\<open>from_orm\<close> reads the attribute \<^verbatim>\<open>metadata\<close> of the row, which is the text
  column: a \<^verbatim>\<open>str\<close> is not a dict.
\<close>

definition transaction_from_orm :: "TransactionDB \<Rightarrow> string + TransactionResponse" where
  "transaction_from_orm r =
     new_TransactionResponse r
       (case td_metadata r of None \<Rightarrow> Inr None | Some s \<Rightarrow> optional_dict (JStr s))"

subsection \<open>State of the service\<close>

definition NOTIFICATION_SERVICE_URL :: string where
  "NOTIFICATION_SERVICE_URL = ''http://notification-service:8081/notify''"

text \<open>
  \<open>posts\<close> lists the HTTP requests the service has issued; the counters and the
  histogram are those of prometheus.
\<close>

record transaction_service = service +
  transactions :: "TransactionDB list"
  TRANSACTION_CREATED :: nat
  TRANSACTION_RETRIEVED :: nat
  TRANSACTION_ERRORS :: nat
  TRANSACTION_DURATION :: "real list"
  posts :: "(string \<times> dict) list"

definition generate_transaction_id :: "env \<Rightarrow> string" where
  "generate_transaction_id e = ''TXN'' @ str_nat (time_ms e) @ uuid8 e"

text \<open>
  \<^verbatim>\<open>db.add\<close> and \<^verbatim>\<open>db.commit\<close>: the INSERT. The database refuses a second row
  with the same \<^verbatim>\<open>transaction_id\<close> (\<^verbatim>\<open>unique=True\<close>) and a text longer than its
  column; it fills \<^verbatim>\<open>id\<close>, the timestamps (the column default is the value
  \<^verbatim>\<open>datetime.now\<close> had when the module was loaded) and \<^verbatim>\<open>is_active\<close>.
\<close>

definition transaction_fits :: "TransactionDB \<Rightarrow> bool" where
  "transaction_fits r \<longleftrightarrow>
     length (td_transaction_id r) \<le> 50 \<and> length (td_user_id r) \<le> 50 \<and>
     length (td_currency r) \<le> 3 \<and> length (td_transaction_type r) \<le> 20 \<and>
     length (td_status r) \<le> 20"

definition inserted_transaction :: "env \<Rightarrow> TransactionDB list \<Rightarrow> TransactionDB \<Rightarrow> TransactionDB" where
  "inserted_transaction e tbl r =
     r\<lparr>td_id := Some (Suc (length tbl)), td_created_at := Some (import_time e),
       td_updated_at := Some (import_time e), td_is_active := Some True\<rparr>"

definition commit_transaction ::
  "env \<Rightarrow> TransactionDB \<Rightarrow> TransactionDB list \<Rightarrow> string + (TransactionDB \<times> TransactionDB list)" where
  "commit_transaction e r tbl =
     (case commit e of
        Inl m \<Rightarrow> Inl m
      | Inr _ \<Rightarrow>
          if td_transaction_id r \<in> set (map td_transaction_id tbl) then Inl ''IntegrityError''
          else if \<not> transaction_fits r then Inl ''DataError''
          else Inr (inserted_transaction e tbl r, tbl @ [inserted_transaction e tbl r]))"

subsection \<open>Creating a transaction\<close>

text \<open>\<^verbatim>\<open>str(transaction.metadata) if transaction.metadata else None\<close>\<close>

definition metadata_text :: "python \<Rightarrow> dict option \<Rightarrow> string option" where
  "metadata_text p m =
     (case m of
        None \<Rightarrow> None
      | Some d \<Rightarrow> if truthy_dict (Some d) then Some (py_str p (JDict d)) else None)"

definition new_TransactionDB :: "python \<Rightarrow> string \<Rightarrow> TransactionCreate \<Rightarrow> TransactionDB" where
  "new_TransactionDB p transaction_id transaction =
     \<lparr>td_id = None, td_transaction_id = transaction_id, td_user_id = tc_user_id transaction,
      td_amount = tc_amount transaction, td_currency = tc_currency transaction,
      td_transaction_type = tc_transaction_type transaction, td_status = ''pending'',
      td_description = tc_description transaction,
      td_metadata = metadata_text p (tc_metadata transaction),
      td_created_at = None, td_updated_at = None, td_is_active = None\<rparr>"

text \<open>The dictionary handed to the background task.\<close>

definition transaction_data_of :: "string \<Rightarrow> TransactionCreate \<Rightarrow> dict" where
  "transaction_data_of transaction_id transaction =
     [(''transaction_id'', JStr transaction_id),
      (''user_id'', JStr (tc_user_id transaction)),
      (''amount'', json_of_float (tc_amount transaction)),
      (''currency'', JStr (tc_currency transaction)),
      (''transaction_type'', JStr (tc_transaction_type transaction))]"

text \<open>The \<^verbatim>\<open>except Exception\<close> branch of \<^verbatim>\<open>create_transaction\<close>.\<close>

definition create_transaction_except ::
  "string \<Rightarrow> TransactionCreate \<Rightarrow> dict list \<Rightarrow> transaction_service
   \<Rightarrow> (HTTPException + TransactionResponse) \<times> dict list \<times> transaction_service" where
  "create_transaction_except exc transaction background_tasks w =
     (Inl (HTTPException HTTP_500_INTERNAL_SERVER_ERROR (''Erro interno ao criar '' @ transacao)),
      background_tasks,
      logger Error (''Erro ao criar '' @ transacao)
        [(''error'', JStr exc), (''user_id'', JStr (tc_user_id transaction))]
        (w\<lparr>TRANSACTION_ERRORS := Suc (TRANSACTION_ERRORS w)\<rparr>))"

text \<open>
  \<^verbatim>\<open>create_transaction\<close>. \<open>background_tasks\<close> is the request's
  \<^verbatim>\<open>BackgroundTasks\<close>, a list of the arguments \<^verbatim>\<open>send_notification\<close> will be
  called with; the function returns it as it is when the handler ends.
\<close>

definition create_transaction ::
  "python \<Rightarrow> env \<Rightarrow> TransactionCreate \<Rightarrow> dict list \<Rightarrow> transaction_service
   \<Rightarrow> (HTTPException + TransactionResponse) \<times> dict list \<times> transaction_service" where
  "create_transaction p e transaction background_tasks w =
     (let transaction_id = generate_transaction_id e in
      case commit_transaction e (new_TransactionDB p transaction_id transaction) (transactions w) of
        Inl exc \<Rightarrow> create_transaction_except exc transaction background_tasks w
      | Inr (row, tbl) \<Rightarrow>
         (let w1 = w\<lparr>transactions := tbl\<rparr> in
          case refresh e row of
            Inl exc \<Rightarrow> create_transaction_except exc transaction background_tasks w1
          | Inr db_transaction \<Rightarrow>
             (case setex e (''transaction:'' @ transaction_id) 3600
                     (str_transaction p db_transaction) (cache w1) of
                Inl exc \<Rightarrow> create_transaction_except exc transaction background_tasks w1
              | Inr c \<Rightarrow>
                 (let w2 = w1\<lparr>cache := c,
                              TRANSACTION_CREATED := Suc (TRANSACTION_CREATED w1),
                              TRANSACTION_DURATION := TRANSACTION_DURATION w1 @ [duration e]\<rparr>;
                      w3 = logger Info (Transacao @ '' criada com sucesso'')
                             [(''transaction_id'', JStr transaction_id),
                              (''user_id'', JStr (tc_user_id transaction)),
                              (''amount'', json_of_float (tc_amount transaction)),
                              (''currency'', JStr (tc_currency transaction))] w2;
                      tasks = background_tasks @ [transaction_data_of transaction_id transaction]
                  in case transaction_from_orm db_transaction of
                       Inl exc \<Rightarrow> create_transaction_except exc transaction tasks w3
                     | Inr r \<Rightarrow> (Inr r, tasks, w3)))))"

text \<open>
  \<^verbatim>\<open>POST /transactions\<close> as FastAPI serves it: the body is validated before the
  handler is called, the handler gets a fresh \<^verbatim>\<open>BackgroundTasks\<close>, a returned
  value is answered with the decorator's status code, and the tasks are kept only for
  a returned value (an \<^verbatim>\<open>HTTPException\<close> is answered without them).
\<close>

definition post_transactions ::
  "python \<Rightarrow> env \<Rightarrow> TransactionBody \<Rightarrow> transaction_service
   \<Rightarrow> TransactionResponse response \<times> dict list \<times> transaction_service" where
  "post_transactions p e body w =
     (case TransactionCreate p body of
        Inl errs \<Rightarrow> (Unprocessable errs, [], w)
      | Inr transaction \<Rightarrow>
          (case create_transaction p e transaction [] w of
             (Inl (HTTPException c d), tasks, w') \<Rightarrow> (Failed c d, [], w')
           | (Inr r, tasks, w') \<Rightarrow> (Returned HTTP_201_CREATED r, tasks, w')))"

subsection \<open>The notifier\<close>

text \<open>
  What awaiting \<^verbatim>\<open>client.post\<close> gives: a response with its status code, or an
  exception. The surroundings answer a request that has been sent; \<^verbatim>\<open>client.post\<close>
  first encodes the \<^verbatim>\<open>json=\<close> payload with \<^verbatim>\<open>allow_nan=False\<close> and raises
  ValueError, sending nothing, when the payload is not compliant.
\<close>

datatype post_outcome = Responded nat | Raised string

type_synonym http_client = "string \<times> dict \<Rightarrow> post_outcome"

definition client_post :: "http_client \<Rightarrow> string \<times> dict \<Rightarrow> post_outcome" where
  "client_post client request =
     (if json_compliant (JDict (snd request)) then client request
      else Raised ''Out of range float values are not JSON compliant'')"

definition notification_payload :: "python \<Rightarrow> dict \<Rightarrow> string + dict" where
  "notification_payload p transaction_data =
     (case getitem transaction_data ''user_id'' of
        Inl exc \<Rightarrow> Inl exc
      | Inr user_id \<Rightarrow>
         (case getitem transaction_data ''amount'' of
            Inl exc \<Rightarrow> Inl exc
          | Inr amount \<Rightarrow>
             (case getitem transaction_data ''currency'' of
                Inl exc \<Rightarrow> Inl exc
              | Inr currency \<Rightarrow>
                  Inr [(''user_id'', user_id),
                       (''type'', JStr ''transaction_created''),
                       (''title'', JStr (''Nova '' @ Transacao)),
                       (''message'', JStr (Transacao @ '' de '' @ py_str p amount @ '' ''
                                           @ py_str p currency @ '' foi criada'')),
                       (''metadata'', JDict transaction_data)])))"

text \<open>
  The \<^verbatim>\<open>except Exception\<close> branch of \<^verbatim>\<open>send_notification\<close>; its own lookup of
  \<^verbatim>\<open>transaction_id\<close> is not guarded.
\<close>

definition send_notification_except ::
  "string \<Rightarrow> dict \<Rightarrow> transaction_service \<Rightarrow> (string + unit) \<times> transaction_service" where
  "send_notification_except exc transaction_data w =
     (case getitem transaction_data ''transaction_id'' of
        Inl k \<Rightarrow> (Inl k, w)
      | Inr tid \<Rightarrow>
          (Inr (), logger Error (''Erro ao enviar '' @ notificacao)
                     [(''error'', JStr exc), (''transaction_id'', tid)] w))"

definition send_notification ::
  "python \<Rightarrow> http_client \<Rightarrow> dict \<Rightarrow> transaction_service
   \<Rightarrow> (string + unit) \<times> transaction_service" where
  "send_notification p client transaction_data w =
     (case notification_payload p transaction_data of
        Inl exc \<Rightarrow> send_notification_except exc transaction_data w
      | Inr payload \<Rightarrow>
         (let w1 = (if json_compliant (JDict payload)
                    then w\<lparr>posts := posts w @ [(NOTIFICATION_SERVICE_URL, payload)]\<rparr>
                    else w)
          in case client_post client (NOTIFICATION_SERVICE_URL, payload) of
            Raised exc \<Rightarrow> send_notification_except exc transaction_data w1
          | Responded code \<Rightarrow>
              if code = 200 then
                (case getitem transaction_data ''transaction_id'' of
                   Inl exc \<Rightarrow> send_notification_except exc transaction_data w1
                 | Inr tid \<Rightarrow>
                     (Inr (), logger Info (Notificacao @ '' enviada com sucesso'')
                                [(''transaction_id'', tid)] w1))
              else
                (Inr (), logger Warning (''Falha ao enviar '' @ notificacao)
                           [(''status_code'', JNum (real code))] w1)))"

text \<open>The tasks run one after the other once the response is sent; a task that raises ends the run.\<close>

fun run_background_tasks ::
  "python \<Rightarrow> http_client \<Rightarrow> dict list \<Rightarrow> transaction_service \<Rightarrow> transaction_service" where
  "run_background_tasks p client [] w = w"
| "run_background_tasks p client (t # ts) w =
     (case send_notification p client t w of
        (Inl _, w') \<Rightarrow> w'
      | (Inr _, w') \<Rightarrow> run_background_tasks p client ts w')"

definition serve_post_transactions ::
  "python \<Rightarrow> env \<Rightarrow> http_client \<Rightarrow> TransactionBody \<Rightarrow> transaction_service
   \<Rightarrow> TransactionResponse response \<times> transaction_service" where
  "serve_post_transactions p e client body w =
     (case post_transactions p e body w of
        (resp, tasks, w') \<Rightarrow> (resp, run_background_tasks p client tasks w'))"

subsection \<open>Reading a transaction\<close>

text \<open>
  \<^verbatim>\<open>SELECT * FROM transactions WHERE transaction_id = :transaction_id AND is_active = true\<close>
  and \<^verbatim>\<open>fetchone\<close>.
\<close>

definition select_transaction ::
  "env \<Rightarrow> string \<Rightarrow> TransactionDB list \<Rightarrow> string + TransactionDB option" where
  "select_transaction e transaction_id tbl =
     (case execute_exc e of
        Some m \<Rightarrow> Inl m
      | None \<Rightarrow> Inr (find (\<lambda>r. td_transaction_id r = transaction_id \<and> td_is_active r = Some True) tbl))"

text \<open>\<^verbatim>\<open>eval(transaction_data.metadata) if transaction_data.metadata else None\<close>, given to an \<^verbatim>\<open>Optional[Dict]\<close> field.\<close>

definition metadata_of_text :: "python \<Rightarrow> string option \<Rightarrow> string + dict option" where
  "metadata_of_text p t =
     (case t of
        None \<Rightarrow> Inr None
      | Some s \<Rightarrow>
          if truthy_str (Some s)
          then (case py_eval p s of Inl exc \<Rightarrow> Inl exc | Inr v \<Rightarrow> optional_dict v)
          else Inr None)"

definition get_transaction_except ::
  "string \<Rightarrow> string \<Rightarrow> transaction_service \<Rightarrow> (HTTPException + TransactionResponse) \<times> transaction_service" where
  "get_transaction_except exc transaction_id w =
     (Inl (HTTPException HTTP_500_INTERNAL_SERVER_ERROR (''Erro interno ao buscar '' @ transacao)),
      logger Error (''Erro ao buscar '' @ transacao)
        [(''error'', JStr exc), (''transaction_id'', JStr transaction_id)]
        (w\<lparr>TRANSACTION_ERRORS := Suc (TRANSACTION_ERRORS w)\<rparr>))"

definition get_transaction ::
  "python \<Rightarrow> env \<Rightarrow> string \<Rightarrow> transaction_service
   \<Rightarrow> (HTTPException + TransactionResponse) \<times> transaction_service" where
  "get_transaction p e transaction_id w =
     (case redis_get e (''transaction:'' @ transaction_id) (cache w) of
        Inl exc \<Rightarrow> get_transaction_except exc transaction_id w
      | Inr cached_transaction \<Rightarrow>
         (let w1 = (if truthy_str cached_transaction
                    then logger Info (Transacao @ '' encontrada no cache'')
                           [(''transaction_id'', JStr transaction_id)] w
                    else w)
          in case select_transaction e transaction_id (transactions w1) of
               Inl exc \<Rightarrow> get_transaction_except exc transaction_id w1
             | Inr None \<Rightarrow>
                 (Inl (HTTPException HTTP_404_NOT_FOUND (Transacao @ '' '' @ nao @ '' encontrada'')), w1)
             | Inr (Some transaction_data) \<Rightarrow>
                (let w2 = w1\<lparr>TRANSACTION_RETRIEVED := Suc (TRANSACTION_RETRIEVED w1),
                             TRANSACTION_DURATION := TRANSACTION_DURATION w1 @ [duration e]\<rparr>;
                     w3 = logger Info (Transacao @ '' consultada com sucesso'')
                            [(''transaction_id'', JStr transaction_id)] w2
                 in case new_TransactionResponse transaction_data
                           (metadata_of_text p (td_metadata transaction_data)) of
                      Inl exc \<Rightarrow> get_transaction_except exc transaction_id w3
                    | Inr r \<Rightarrow> (Inr r, w3))))"

section \<open>Notification service\<close>

subsection \<open>Models\<close>

text \<open>The JSON body \<^verbatim>\<open>POST /notify\<close> takes; \<^verbatim>\<open>priority\<close> has a default.\<close>

record NotificationBody =
  nb_user_id :: string
  nb_type :: string
  nb_title :: string
  nb_message :: string
  nb_priority :: "string option"
  nb_metadata :: "dict option"

record NotificationCreate =
  nc_user_id :: string
  nc_type :: string
  nc_title :: string
  nc_message :: string
  nc_priority :: string
  nc_metadata :: "dict option"

record NotificationResponse =
  nr_id :: nat
  nr_notification_id :: string
  nr_user_id :: string
  nr_type :: string
  nr_title :: string
  nr_message :: string
  nr_status :: string
  nr_priority :: string
  nr_metadata :: "dict option"
  nr_created_at :: timestamp
  nr_updated_at :: timestamp
  nr_read_at :: "timestamp option"

definition allowed_priorities :: "string list" where
  "allowed_priorities = [''low'', ''normal'', ''high'', ''urgent'']"

definition validate_priority :: "string \<Rightarrow> string + string" where
  "validate_priority v =
     (if v \<notin> set allowed_priorities
      then Inl ''priority deve ser um dos seguintes''
      else Inr v)"

definition allowed_types :: "string list" where
  "allowed_types = [''transaction_created'', ''system_alert'', ''security_alert'',
                    ''payment_confirmation'', ''general'']"

definition validate_type :: "string \<Rightarrow> string + string" where
  "validate_type v =
     (if v \<notin> set allowed_types
      then Inl ''type deve ser um dos seguintes''
      else Inr v)"

text \<open>\<^verbatim>\<open>Field(..., max_length=200)\<close> on \<^verbatim>\<open>title\<close>.\<close>

definition field_title :: "string \<Rightarrow> string + string" where
  "field_title v = (if length v > 200 then Inl ''string_too_long'' else Inr v)"

text \<open>\<^verbatim>\<open>Field(default="normal")\<close> and then the validator.\<close>

definition field_priority :: "string option \<Rightarrow> string + string" where
  "field_priority v = (case v of None \<Rightarrow> Inr ''normal'' | Some s \<Rightarrow> validate_priority s)"

definition NotificationCreate :: "NotificationBody \<Rightarrow> field_error list + NotificationCreate" where
  "NotificationCreate b =
     (case (validate_type (nb_type b), field_title (nb_title b), field_priority (nb_priority b)) of
        (Inr t, Inr ti, Inr pr) \<Rightarrow>
          Inr \<lparr>nc_user_id = nb_user_id b, nc_type = t, nc_title = ti,
               nc_message = nb_message b, nc_priority = pr, nc_metadata = nb_metadata b\<rparr>
      | (rt, rti, rpr) \<Rightarrow>
          Inl (errors_of ''type'' rt @ errors_of ''title'' rti @ errors_of ''priority'' rpr))"

text \<open>
  \<^verbatim>\<open>NotificationResponse(...)\<close> and \<^verbatim>\<open>NotificationResponse.from_orm\<close>:
  \<^verbatim>\<open>id\<close> and the two timestamps must not be \<open>None\<close>.
\<close>

definition new_NotificationResponse :: "NotificationDB \<Rightarrow> string + NotificationResponse" where
  "new_NotificationResponse r =
     (case (nd_id r, nd_created_at r, nd_updated_at r) of
        (Some i, Some c, Some u) \<Rightarrow>
          Inr \<lparr>nr_id = i, nr_notification_id = nd_notification_id r, nr_user_id = nd_user_id r,
               nr_type = nd_type r, nr_title = nd_title r, nr_message = nd_message r,
               nr_status = nd_status r, nr_priority = nd_priority r,
               nr_metadata = nd_metadata r, nr_created_at = c, nr_updated_at = u,
               nr_read_at = nd_read_at r\<rparr>
      | _ \<Rightarrow> Inl ''ValidationError for NotificationResponse'')"

subsection \<open>State of the service\<close>

record notification_service = service +
  notifications :: "NotificationDB list"
  NOTIFICATIONS_SENT :: nat
  NOTIFICATIONS_RETRIEVED :: nat
  NOTIFICATION_ERRORS :: nat
  NOTIFICATION_DURATION :: "real list"

definition generate_notification_id :: "env \<Rightarrow> string" where
  "generate_notification_id e = ''NOT'' @ str_nat (time_ms e) @ uuid8 e"

definition notification_fits :: "NotificationDB \<Rightarrow> bool" where
  "notification_fits r \<longleftrightarrow>
     length (nd_notification_id r) \<le> 50 \<and> length (nd_user_id r) \<le> 50 \<and>
     length (nd_type r) \<le> 50 \<and> length (nd_title r) \<le> 200 \<and>
     length (nd_status r) \<le> 20 \<and> length (nd_priority r) \<le> 20"

definition inserted_notification :: "env \<Rightarrow> NotificationDB list \<Rightarrow> NotificationDB \<Rightarrow> NotificationDB" where
  "inserted_notification e tbl r =
     r\<lparr>nd_id := Some (Suc (length tbl)), nd_created_at := Some (import_time e),
       nd_updated_at := Some (import_time e), nd_is_active := Some True\<rparr>"

text \<open>\<^verbatim>\<open>db.add\<close> and \<^verbatim>\<open>db.commit\<close>, as for a transaction.\<close>

definition commit_notification ::
  "env \<Rightarrow> NotificationDB \<Rightarrow> NotificationDB list \<Rightarrow> string + (NotificationDB \<times> NotificationDB list)" where
  "commit_notification e r tbl =
     (case commit e of
        Inl m \<Rightarrow> Inl m
      | Inr _ \<Rightarrow>
          if nd_notification_id r \<in> set (map nd_notification_id tbl) then Inl ''IntegrityError''
          else if \<not> notification_fits r then Inl ''DataError''
          else Inr (inserted_notification e tbl r, tbl @ [inserted_notification e tbl r]))"

subsection \<open>Creating a notification\<close>

definition new_NotificationDB :: "string \<Rightarrow> NotificationCreate \<Rightarrow> NotificationDB" where
  "new_NotificationDB notification_id notification =
     \<lparr>nd_id = None, nd_notification_id = notification_id, nd_user_id = nc_user_id notification,
      nd_type = nc_type notification, nd_title = nc_title notification,
      nd_message = nc_message notification, nd_status = ''unread'',
      nd_priority = nc_priority notification, nd_metadata = nc_metadata notification,
      nd_created_at = None, nd_updated_at = None, nd_read_at = None, nd_is_active = None\<rparr>"

definition notification_data_of :: "string \<Rightarrow> NotificationCreate \<Rightarrow> dict" where
  "notification_data_of notification_id notification =
     [(''notification_id'', JStr notification_id),
      (''user_id'', JStr (nc_user_id notification)),
      (''type'', JStr (nc_type notification)),
      (''title'', JStr (nc_title notification)),
      (''message'', JStr (nc_message notification)),
      (''priority'', JStr (nc_priority notification))]"

definition create_notification_except ::
  "string \<Rightarrow> NotificationCreate \<Rightarrow> dict list \<Rightarrow> notification_service
   \<Rightarrow> (HTTPException + NotificationResponse) \<times> dict list \<times> notification_service" where
  "create_notification_except exc notification tasks w =
     (Inl (HTTPException HTTP_500_INTERNAL_SERVER_ERROR (''Erro interno ao criar '' @ notificacao)),
      tasks,
      logger Error (''Erro ao criar '' @ notificacao)
        [(''error'', JStr exc), (''user_id'', JStr (nc_user_id notification))]
        (w\<lparr>NOTIFICATION_ERRORS := Suc (NOTIFICATION_ERRORS w)\<rparr>))"

text \<open>
  \<^verbatim>\<open>create_notification\<close>. The second component lists the arguments of the
  \<^verbatim>\<open>send_external_notification\<close> coroutines started with \<^verbatim>\<open>asyncio.create_task\<close>.
\<close>

definition create_notification ::
  "python \<Rightarrow> env \<Rightarrow> NotificationCreate \<Rightarrow> notification_service
   \<Rightarrow> (HTTPException + NotificationResponse) \<times> dict list \<times> notification_service" where
  "create_notification p e notification w =
     (let notification_id = generate_notification_id e in
      case commit_notification e (new_NotificationDB notification_id notification) (notifications w) of
        Inl exc \<Rightarrow> create_notification_except exc notification [] w
      | Inr (row, tbl) \<Rightarrow>
         (let w1 = w\<lparr>notifications := tbl\<rparr> in
          case refresh e row of
            Inl exc \<Rightarrow> create_notification_except exc notification [] w1
          | Inr db_notification \<Rightarrow>
             (case setex e (''notification:'' @ notification_id) 3600
                     (str_notification p db_notification) (cache w1) of
                Inl exc \<Rightarrow> create_notification_except exc notification [] w1
              | Inr c \<Rightarrow>
                 (case expire0 e (''user_notifications:'' @ nc_user_id notification) c of
                    Inl exc \<Rightarrow> create_notification_except exc notification [] (w1\<lparr>cache := c\<rparr>)
                  | Inr c' \<Rightarrow>
                     (let w2 = w1\<lparr>cache := c',
                                  NOTIFICATIONS_SENT := Suc (NOTIFICATIONS_SENT w1),
                                  NOTIFICATION_DURATION := NOTIFICATION_DURATION w1 @ [duration e]\<rparr>;
                          w3 = logger Info (Notificacao @ '' criada com sucesso'')
                                 [(''notification_id'', JStr notification_id),
                                  (''user_id'', JStr (nc_user_id notification)),
                                  (''type'', JStr (nc_type notification)),
                                  (''priority'', JStr (nc_priority notification))] w2;
                          tasks = [notification_data_of notification_id notification]
                      in case new_NotificationResponse db_notification of
                           Inl exc \<Rightarrow> create_notification_except exc notification tasks w3
                         | Inr r \<Rightarrow> (Inr r, tasks, w3))))))"

text \<open>\<^verbatim>\<open>POST /notify\<close> as FastAPI serves it.\<close>

definition post_notify ::
  "python \<Rightarrow> env \<Rightarrow> NotificationBody \<Rightarrow> notification_service
   \<Rightarrow> NotificationResponse response \<times> dict list \<times> notification_service" where
  "post_notify p e body w =
     (case NotificationCreate body of
        Inl errs \<Rightarrow> (Unprocessable errs, [], w)
      | Inr notification \<Rightarrow>
          (case create_notification p e notification w of
             (Inl (HTTPException c d), tasks, w') \<Rightarrow> (Failed c d, tasks, w')
           | (Inr r, tasks, w') \<Rightarrow> (Returned HTTP_201_CREATED r, tasks, w')))"

text \<open>
  \<^verbatim>\<open>send_external_notification\<close>: it only logs; the keyword arguments of the
  call are looked up in their order.
\<close>

definition send_external_notification_except ::
  "string \<Rightarrow> notification_service \<Rightarrow> bool \<times> notification_service" where
  "send_external_notification_except exc w =
     (False, logger Error (''Erro ao enviar '' @ notificacao @ '' externa'') [(''error'', JStr exc)] w)"

definition send_external_notification ::
  "dict \<Rightarrow> notification_service \<Rightarrow> bool \<times> notification_service" where
  "send_external_notification notification_data w =
     (case getitem notification_data ''notification_id'' of
        Inl exc \<Rightarrow> send_external_notification_except exc w
      | Inr i \<Rightarrow>
         (case getitem notification_data ''user_id'' of
            Inl exc \<Rightarrow> send_external_notification_except exc w
          | Inr u \<Rightarrow>
             (case getitem notification_data ''type'' of
                Inl exc \<Rightarrow> send_external_notification_except exc w
              | Inr t \<Rightarrow>
                 (case getitem notification_data ''priority'' of
                    Inl exc \<Rightarrow> send_external_notification_except exc w
                  | Inr pr \<Rightarrow>
                      (True, logger Info (Notificacao @ '' externa enviada'')
                               [(''notification_id'', i), (''user_id'', u), (''type'', t),
                                (''priority'', pr)] w)))))"

subsection \<open>Marking a notification as read\<close>

text \<open>
  \<^verbatim>\<open>UPDATE notifications SET status = 'read', read_at = :read_at, updated_at = :updated_at
  WHERE notification_id = :notification_id AND is_active = true RETURNING *\<close>:
  the table after the statement and the rows it returns.
\<close>

definition matches :: "string \<Rightarrow> NotificationDB \<Rightarrow> bool" where
  "matches notification_id r \<longleftrightarrow>
     nd_notification_id r = notification_id \<and> nd_is_active r = Some True"

definition set_read :: "env \<Rightarrow> NotificationDB \<Rightarrow> NotificationDB" where
  "set_read e r =
     r\<lparr>nd_status := ''read'', nd_read_at := Some (now_read_at e),
       nd_updated_at := Some (now_updated_at e)\<rparr>"

definition update_read ::
  "env \<Rightarrow> string \<Rightarrow> NotificationDB list \<Rightarrow> string + (NotificationDB list \<times> NotificationDB list)" where
  "update_read e notification_id tbl =
     (case execute_exc e of
        Some m \<Rightarrow> Inl m
      | None \<Rightarrow>
          Inr (map (\<lambda>r. if matches notification_id r then set_read e r else r) tbl,
               map (set_read e) (filter (matches notification_id) tbl)))"

definition mark_notification_as_read_except ::
  "string \<Rightarrow> string \<Rightarrow> notification_service
   \<Rightarrow> (HTTPException + NotificationResponse) \<times> notification_service" where
  "mark_notification_as_read_except exc notification_id w =
     (Inl (HTTPException HTTP_500_INTERNAL_SERVER_ERROR
             (''Erro interno ao marcar '' @ notificacao @ '' como lida'')),
      logger Error (''Erro ao marcar '' @ notificacao @ '' como lida'')
        [(''error'', JStr exc), (''notification_id'', JStr notification_id)] w)"

text \<open>
  \<^verbatim>\<open>mark_notification_as_read\<close>. The UPDATE reaches the table with the commit; a
  request that ends before it leaves the table as it was.
\<close>

definition mark_notification_as_read ::
  "env \<Rightarrow> string \<Rightarrow> notification_service
   \<Rightarrow> (HTTPException + NotificationResponse) \<times> notification_service" where
  "mark_notification_as_read e notification_id w =
     (case update_read e notification_id (notifications w) of
        Inl exc \<Rightarrow> mark_notification_as_read_except exc notification_id w
      | Inr (tbl, []) \<Rightarrow>
          (Inl (HTTPException HTTP_404_NOT_FOUND (Notificacao @ '' '' @ nao @ '' encontrada'')), w)
      | Inr (tbl, notification # _) \<Rightarrow>
         (case commit e of
            Inl exc \<Rightarrow> mark_notification_as_read_except exc notification_id w
          | Inr _ \<Rightarrow>
             (let w1 = w\<lparr>notifications := tbl\<rparr> in
              case redis_delete (delete_record_exc e) (''notification:'' @ notification_id) (cache w1) of
                Inl exc \<Rightarrow> mark_notification_as_read_except exc notification_id w1
              | Inr c1 \<Rightarrow>
                 (case redis_delete (delete_user_exc e)
                         (''user_notifications:'' @ nd_user_id notification) c1 of
                    Inl exc \<Rightarrow> mark_notification_as_read_except exc notification_id (w1\<lparr>cache := c1\<rparr>)
                  | Inr c2 \<Rightarrow>
                     (let w2 = logger Info (Notificacao @ '' marcada como lida'')
                                 [(''notification_id'', JStr notification_id)] (w1\<lparr>cache := c2\<rparr>)
                      in case new_NotificationResponse notification of
                           Inl exc \<Rightarrow> mark_notification_as_read_except exc notification_id w2
                         | Inr r \<Rightarrow> (Inr r, w2))))))"

section \<open>A concrete run\<close>

text \<open>
  A Python whose \<^verbatim>\<open>upper\<close> knows the ASCII letters, whose \<^verbatim>\<open>str\<close> prints a
  string as it is and whose \<^verbatim>\<open>eval\<close> rejects every text; surroundings in which no
  call raises; two services that have stored nothing. The theorems below are
  instantiated on them.
\<close>

definition ascii_upper :: "char \<Rightarrow> char" where
  "ascii_upper c =
     (case map_of (zip ''abcdefghijklmnopqrstuvwxyz'' ''ABCDEFGHIJKLMNOPQRSTUVWXYZ'') c of
        None \<Rightarrow> c
      | Some u \<Rightarrow> u)"

definition str0 :: "json \<Rightarrow> string" where
  "str0 v = (case v of JStr s \<Rightarrow> s | JNull \<Rightarrow> ''None'' | JBool b \<Rightarrow> (if b then ''True'' else ''False'')
             | JNum _ \<Rightarrow> ''100.0'' | JInf \<Rightarrow> ''inf'' | JNegInf \<Rightarrow> ''-inf'' | JNaN \<Rightarrow> ''nan''
             | JList _ \<Rightarrow> ''[...]'' | JDict _ \<Rightarrow> ''{...}'')"

definition python0 :: python where
  "python0 = \<lparr>str_upper = map ascii_upper, py_str = str0,
               py_eval = (\<lambda>s. Inl ''SyntaxError''),
               str_transaction = td_transaction_id, str_notification = nd_notification_id\<rparr>"

definition env0 :: env where
  "env0 = \<lparr>time_ms = 7, uuid8 = ''abcd1234'', duration = 0, now = 5, now_read_at = 8,
            now_updated_at = 9, import_time = 1,
            execute_exc = None, commit_exc = None, refresh_exc = None, get_exc = None,
            setex_exc = None, expire_exc = None, delete_record_exc = None,
            delete_user_exc = None, ping_exc = None\<rparr>"

text \<open>
  The surroundings as the handlers of the repository meet them: they hand
  \<^verbatim>\<open>AsyncSession.execute\<close> a plain \<^verbatim>\<open>str\<close>, which SQLAlchemy 2 refuses with
  ArgumentError before any statement reaches the database.
\<close>

definition env1 :: env where
  "env1 = env0\<lparr>execute_exc :=
            Some ''Textual SQL expression should be explicitly declared as text()''\<rparr>"

definition transaction_service0 :: transaction_service where
  "transaction_service0 =
     \<lparr>cache = Map.empty, logs = [], transactions = [], TRANSACTION_CREATED = 0,
      TRANSACTION_RETRIEVED = 0, TRANSACTION_ERRORS = 0, TRANSACTION_DURATION = [], posts = []\<rparr>"

definition notification_service0 :: notification_service where
  "notification_service0 =
     \<lparr>cache = Map.empty, logs = [], notifications = [], NOTIFICATIONS_SENT = 0,
      NOTIFICATIONS_RETRIEVED = 0, NOTIFICATION_ERRORS = 0, NOTIFICATION_DURATION = []\<rparr>"

text \<open>The request of the spec's example scenario.\<close>

definition body0 :: TransactionBody where
  "body0 = \<lparr>tb_user_id = ''u1'', tb_amount = Fin 100, tb_currency = Some ''usd'',
             tb_transaction_type = ''credit'', tb_description = None, tb_metadata = None\<rparr>"

definition notify0 :: NotificationBody where
  "notify0 = \<lparr>nb_user_id = ''u1'', nb_type = ''general'', nb_title = ''Hello'',
               nb_message = ''World'', nb_priority = None, nb_metadata = None\<rparr>"

text \<open>What the example request becomes: the validated model and the inserted row.\<close>

definition created0 :: TransactionCreate where
  "created0 = \<lparr>tc_user_id = ''u1'', tc_amount = Fin 100, tc_currency = ''USD'',
                tc_transaction_type = ''credit'', tc_description = None, tc_metadata = None\<rparr>"

definition row0 :: TransactionDB where
  "row0 = \<lparr>td_id = Some 1, td_transaction_id = ''TXN7abcd1234'', td_user_id = ''u1'',
            td_amount = Fin 100, td_currency = ''USD'', td_transaction_type = ''credit'',
            td_status = ''pending'', td_description = None, td_metadata = None,
            td_created_at = Some 1, td_updated_at = Some 1, td_is_active = Some True\<rparr>"

definition notification0 :: NotificationCreate where
  "notification0 = \<lparr>nc_user_id = ''u1'', nc_type = ''general'', nc_title = ''Hello'',
                     nc_message = ''World'', nc_priority = ''normal'', nc_metadata = None\<rparr>"

definition nrow0 :: NotificationDB where
  "nrow0 = \<lparr>nd_id = Some 1, nd_notification_id = ''NOT7abcd1234'', nd_user_id = ''u1'',
             nd_type = ''general'', nd_title = ''Hello'', nd_message = ''World'',
             nd_status = ''unread'', nd_priority = ''normal'', nd_metadata = None,
             nd_created_at = Some 1, nd_updated_at = Some 1, nd_read_at = None,
             nd_is_active = Some True\<rparr>"

text \<open>A notification service that holds one unread notification and both cache entries.\<close>

definition stored0 :: notification_service where
  "stored0 = notification_service0
     \<lparr>cache := [''notification:NOT7abcd1234'' \<mapsto> (3600, ''NOT7abcd1234''),
                ''user_notifications:u1'' \<mapsto> (60, ''[]'')],
      notifications := [nrow0]\<rparr>"

section \<open>Validation comes before every effect\<close>

lemma TransactionCreate_invalid:
  assumes "float_le (tb_amount b) 0 \<or> tb_transaction_type b \<notin> set allowed_transaction_types
           \<or> (\<exists>c. tb_currency b = Some c \<and> length c \<noteq> 3)"
  shows "\<exists>errs. errs \<noteq> [] \<and> TransactionCreate p b = Inl errs"
  using assms
  by (auto simp: TransactionCreate_def field_amount_def float_gt_def float_le_def
      field_currency_def validate_currency_def validate_transaction_type_def errors_of_def
      split: option.splits sum.splits pyfloat.splits)

lemma NotificationCreate_invalid:
  assumes "nb_type b \<notin> set allowed_types"
  shows "\<exists>errs. errs \<noteq> [] \<and> NotificationCreate b = Inl errs"
  using assms
  by (auto simp: NotificationCreate_def validate_type_def errors_of_def split: option.splits sum.splits)

text \<open>
  C1. A body whose amount is not positive or whose transaction type is none of
  credit, debit, transfer is answered by the transaction service with 422, a client
  error, and the service is left exactly as it was: no row is written and no cache
  entry. The same holds in the notification service for a body whose type is none of
  the five notification types.
\<close>

theorem C1_invalid_request_writes_nothing:
  "(float_le (tb_amount b) 0 \<or> tb_transaction_type b \<notin> set [''credit'', ''debit'', ''transfer'']
      \<longrightarrow> (\<exists>errs. errs \<noteq> [] \<and> post_transactions p e b w = (Unprocessable errs, [], w))
          \<and> status_code (fst (post_transactions p e b w)) = 422
          \<and> transactions (snd (snd (post_transactions p e b w))) = transactions w
          \<and> cache (snd (snd (post_transactions p e b w))) = cache w)
   \<and> (nb_type n \<notin> set [''transaction_created'', ''system_alert'', ''security_alert'',
                          ''payment_confirmation'', ''general'']
      \<longrightarrow> (\<exists>errs. errs \<noteq> [] \<and> post_notify p e n v = (Unprocessable errs, [], v))
          \<and> status_code (fst (post_notify p e n v)) = 422
          \<and> notifications (snd (snd (post_notify p e n v))) = notifications v
          \<and> cache (snd (snd (post_notify p e n v))) = cache v)"
proof (intro conjI impI)
  assume "float_le (tb_amount b) 0 \<or> tb_transaction_type b \<notin> set [''credit'', ''debit'', ''transfer'']"
  then obtain errs where errs: "errs \<noteq> []" "TransactionCreate p b = Inl errs"
    using TransactionCreate_invalid [of b p] by (auto simp: allowed_transaction_types_def)
  then have r: "post_transactions p e b w = (Unprocessable errs, [], w)"
    by (simp add: post_transactions_def)
  show "\<exists>errs. errs \<noteq> [] \<and> post_transactions p e b w = (Unprocessable errs, [], w)"
    using errs r by blast
  show "status_code (fst (post_transactions p e b w)) = 422"
    by (simp add: r HTTP_422_UNPROCESSABLE_ENTITY_def)
  show "transactions (snd (snd (post_transactions p e b w))) = transactions w"
    by (simp add: r)
  show "cache (snd (snd (post_transactions p e b w))) = cache w"
    by (simp add: r)
next
  assume "nb_type n \<notin> set [''transaction_created'', ''system_alert'', ''security_alert'',
                            ''payment_confirmation'', ''general'']"
  then obtain errs where errs: "errs \<noteq> []" "NotificationCreate n = Inl errs"
    using NotificationCreate_invalid [of n] by (auto simp: allowed_types_def)
  then have r: "post_notify p e n v = (Unprocessable errs, [], v)"
    by (simp add: post_notify_def)
  show "\<exists>errs. errs \<noteq> [] \<and> post_notify p e n v = (Unprocessable errs, [], v)"
    using errs r by blast
  show "status_code (fst (post_notify p e n v)) = 422"
    by (simp add: r HTTP_422_UNPROCESSABLE_ENTITY_def)
  show "notifications (snd (snd (post_notify p e n v))) = notifications v"
    by (simp add: r)
  show "cache (snd (snd (post_notify p e n v))) = cache v"
    by (simp add: r)
qed

theorem C1_witness:
  "float_le (tb_amount (body0\<lparr>tb_amount := Fin 0\<rparr>)) 0
   \<and> nb_type (notify0\<lparr>nb_type := ''spam''\<rparr>)
        \<notin> set [''transaction_created'', ''system_alert'', ''security_alert'',
                 ''payment_confirmation'', ''general'']
   \<and> status_code (fst (post_transactions python0 env0 (body0\<lparr>tb_amount := Fin 0\<rparr>)
                          transaction_service0)) = 422
   \<and> snd (snd (post_transactions python0 env0 (body0\<lparr>tb_amount := Fin 0\<rparr>) transaction_service0))
       = transaction_service0
   \<and> status_code (fst (post_notify python0 env0 (notify0\<lparr>nb_type := ''spam''\<rparr>)
                          notification_service0)) = 422
   \<and> snd (snd (post_notify python0 env0 (notify0\<lparr>nb_type := ''spam''\<rparr>) notification_service0))
       = notification_service0"
  using C1_invalid_request_writes_nothing [of "body0\<lparr>tb_amount := Fin 0\<rparr>" python0 env0
      transaction_service0 "notify0\<lparr>nb_type := ''spam''\<rparr>" notification_service0]
  by (auto simp: body0_def notify0_def float_le_def)

section \<open>The steps of the two creation handlers\<close>

lemma create_transaction_except_sel:
  "fst (create_transaction_except exc t bt w) =
     Inl (HTTPException 500 (''Erro interno ao criar '' @ transacao))"
  "fst (snd (create_transaction_except exc t bt w)) = bt"
  "transactions (snd (snd (create_transaction_except exc t bt w))) = transactions w"
  "cache (snd (snd (create_transaction_except exc t bt w))) = cache w"
  "posts (snd (snd (create_transaction_except exc t bt w))) = posts w"
  "TRANSACTION_ERRORS (snd (snd (create_transaction_except exc t bt w))) = Suc (TRANSACTION_ERRORS w)"
  "TRANSACTION_CREATED (snd (snd (create_transaction_except exc t bt w))) = TRANSACTION_CREATED w"
  by (simp_all add: create_transaction_except_def logger_def HTTP_500_INTERNAL_SERVER_ERROR_def)

lemma commit_transaction_Inr:
  "commit_transaction e r tbl = Inr (row, tbl') \<Longrightarrow>
     row = inserted_transaction e tbl r \<and> tbl' = tbl @ [row] \<and> commit_exc e = None
     \<and> td_transaction_id r \<notin> set (map td_transaction_id tbl)"
  by (auto simp: commit_transaction_def commit_def split: option.splits if_splits sum.splits)

lemma create_transaction_commit_fails:
  "commit_transaction e (new_TransactionDB p (generate_transaction_id e) t) (transactions w) = Inl m
   \<Longrightarrow> create_transaction p e t bt w = create_transaction_except m t bt w"
  by (simp add: create_transaction_def)

lemma create_transaction_setex_fails:
  "commit_transaction e (new_TransactionDB p (generate_transaction_id e) t) (transactions w) = Inr (row, tbl)
   \<Longrightarrow> refresh_exc e = None \<Longrightarrow> setex_exc e = Some m
   \<Longrightarrow> create_transaction p e t bt w = create_transaction_except m t bt (w\<lparr>transactions := tbl\<rparr>)"
  by (simp add: create_transaction_def refresh_def setex_def)

lemma create_transaction_table:
  "commit_transaction e (new_TransactionDB p (generate_transaction_id e) t) (transactions w) = Inr (row, tbl)
   \<Longrightarrow> transactions (snd (snd (create_transaction p e t bt w))) = tbl"
  by (simp add: create_transaction_def Let_def create_transaction_except_sel logger_def
      split: sum.splits)

lemma create_transaction_Inr:
  assumes "create_transaction p e t bt w = (Inr r, tasks, w')"
  shows "\<exists>row. commit_transaction e (new_TransactionDB p (generate_transaction_id e) t) (transactions w)
            = Inr (row, transactions w @ [row])
         \<and> transaction_from_orm row = Inr r
         \<and> refresh_exc e = None \<and> setex_exc e = None
         \<and> tasks = bt @ [transaction_data_of (generate_transaction_id e) t]
         \<and> transactions w' = transactions w @ [row]
         \<and> cache w' = (cache w)(''transaction:'' @ generate_transaction_id e \<mapsto> (3600, str_transaction p row))
         \<and> posts w' = posts w
         \<and> TRANSACTION_CREATED w' = Suc (TRANSACTION_CREATED w)
         \<and> TRANSACTION_ERRORS w' = TRANSACTION_ERRORS w"
proof (cases "commit_transaction e (new_TransactionDB p (generate_transaction_id e) t) (transactions w)")
  case (Inl m)
  with assms show ?thesis
    by (simp add: create_transaction_commit_fails create_transaction_except_def)
next
  case (Inr a)
  then obtain row tbl where a: "a = (row, tbl)" by (cases a)
  have tbl: "tbl = transactions w @ [row]"
    using Inr a commit_transaction_Inr by blast
  from assms Inr a show ?thesis
    unfolding tbl
    by (auto simp: create_transaction_def Let_def create_transaction_except_def logger_def
        refresh_def setex_def split: sum.splits option.splits)
qed

lemma generate_transaction_id0: "generate_transaction_id (env0\<lparr>setex_exc := x, commit_exc := y\<rparr>) = ''TXN7abcd1234''"
  by (simp add: generate_transaction_id_def env0_def str_nat.simps digit_def)

lemma generate_notification_id0: "generate_notification_id (env0\<lparr>setex_exc := x, commit_exc := y\<rparr>) = ''NOT7abcd1234''"
  by (simp add: generate_notification_id_def env0_def str_nat.simps digit_def)

lemma TransactionCreate0: "TransactionCreate python0 body0 = Inr created0"
  by (simp add: TransactionCreate_def body0_def created0_def field_amount_def float_gt_def field_currency_def
      validate_currency_def validate_transaction_type_def allowed_transaction_types_def
      python0_def ascii_upper_def)

lemma NotificationCreate0: "NotificationCreate notify0 = Inr notification0"
  by (simp add: NotificationCreate_def notify0_def notification0_def validate_type_def
      allowed_types_def field_title_def field_priority_def)

lemma commit_transaction0:
  "commit_transaction (env0\<lparr>setex_exc := x, commit_exc := None\<rparr>)
     (new_TransactionDB python0 ''TXN7abcd1234'' created0) [] = Inr (row0, [row0])"
  by (simp add: commit_transaction_def commit_def env0_def new_TransactionDB_def created0_def
      row0_def transaction_fits_def inserted_transaction_def metadata_text_def)

lemma commit_notification0:
  "commit_notification (env0\<lparr>setex_exc := x, commit_exc := None\<rparr>)
     (new_NotificationDB ''NOT7abcd1234'' notification0) [] = Inr (nrow0, [nrow0])"
  by (simp add: commit_notification_def commit_def env0_def new_NotificationDB_def notification0_def
      nrow0_def notification_fits_def inserted_notification_def)

lemma create_notification_except_sel:
  "fst (create_notification_except exc t bt w) =
     Inl (HTTPException 500 (''Erro interno ao criar '' @ notificacao))"
  "fst (snd (create_notification_except exc t bt w)) = bt"
  "notifications (snd (snd (create_notification_except exc t bt w))) = notifications w"
  "cache (snd (snd (create_notification_except exc t bt w))) = cache w"
  "NOTIFICATION_ERRORS (snd (snd (create_notification_except exc t bt w))) = Suc (NOTIFICATION_ERRORS w)"
  "NOTIFICATIONS_SENT (snd (snd (create_notification_except exc t bt w))) = NOTIFICATIONS_SENT w"
  by (simp_all add: create_notification_except_def logger_def HTTP_500_INTERNAL_SERVER_ERROR_def)

lemma commit_notification_Inr:
  "commit_notification e r tbl = Inr (row, tbl') \<Longrightarrow>
     row = inserted_notification e tbl r \<and> tbl' = tbl @ [row] \<and> commit_exc e = None
     \<and> nd_notification_id r \<notin> set (map nd_notification_id tbl)"
  by (auto simp: commit_notification_def commit_def split: option.splits if_splits sum.splits)

lemma create_notification_commit_fails:
  "commit_notification e (new_NotificationDB (generate_notification_id e) t) (notifications w) = Inl m
   \<Longrightarrow> create_notification p e t w = create_notification_except m t [] w"
  by (simp add: create_notification_def)

lemma create_notification_setex_fails:
  "commit_notification e (new_NotificationDB (generate_notification_id e) t) (notifications w) = Inr (row, tbl)
   \<Longrightarrow> refresh_exc e = None \<Longrightarrow> setex_exc e = Some m
   \<Longrightarrow> create_notification p e t w = create_notification_except m t [] (w\<lparr>notifications := tbl\<rparr>)"
  by (simp add: create_notification_def refresh_def setex_def)

lemma create_notification_expire_fails:
  "commit_notification e (new_NotificationDB (generate_notification_id e) t) (notifications w) = Inr (row, tbl)
   \<Longrightarrow> refresh_exc e = None \<Longrightarrow> setex_exc e = None \<Longrightarrow> expire_exc e = Some m
   \<Longrightarrow> create_notification p e t w =
        create_notification_except m t []
          (w\<lparr>notifications := tbl,
             cache := (cache w)(''notification:'' @ generate_notification_id e \<mapsto>
                                  (3600, str_notification p row))\<rparr>)"
  by (simp add: create_notification_def refresh_def setex_def expire0_def)

lemma post_transactions_except:
  "TransactionCreate p b = Inr t \<Longrightarrow> create_transaction p e t [] w = create_transaction_except m t [] w1
   \<Longrightarrow> post_transactions p e b w =
         (Failed 500 (''Erro interno ao criar '' @ transacao), [],
          snd (snd (create_transaction_except m t [] w1)))"
  by (simp add: post_transactions_def create_transaction_except_def HTTP_500_INTERNAL_SERVER_ERROR_def)

lemma post_notify_except:
  "NotificationCreate b = Inr t \<Longrightarrow> create_notification p e t w = create_notification_except m t [] w1
   \<Longrightarrow> post_notify p e b w =
         (Failed 500 (''Erro interno ao criar '' @ notificacao), [],
          snd (snd (create_notification_except m t [] w1)))"
  by (simp add: post_notify_def create_notification_except_def HTTP_500_INTERNAL_SERVER_ERROR_def)

section \<open>Failures of the store and of the cache\<close>

lemma env0_sel:
  "refresh_exc (env0\<lparr>setex_exc := x, commit_exc := y\<rparr>) = None"
  "setex_exc (env0\<lparr>setex_exc := x, commit_exc := y\<rparr>) = x"
  "commit_exc (env0\<lparr>setex_exc := x, commit_exc := y\<rparr>) = y"
  "expire_exc (env0\<lparr>setex_exc := x, commit_exc := y\<rparr>) = None"
  by (simp_all add: env0_def)

text \<open>
  C2. When the row has been committed and the cache write that follows raises
  (\<^verbatim>\<open>setex\<close> in both services, or the \<^verbatim>\<open>expire\<close> of the notification service),
  the \<^verbatim>\<open>except Exception\<close> branch answers 500 and counts an error, while the
  table keeps the committed row.
\<close>

theorem C2_cache_failure_is_server_error:
  "(TransactionCreate p b = Inr t
      \<and> commit_transaction e (new_TransactionDB p (generate_transaction_id e) t) (transactions w)
          = Inr (row, tbl)
      \<and> refresh_exc e = None \<and> setex_exc e = Some m
    \<longrightarrow> status_code (fst (post_transactions p e b w)) = 500
        \<and> TRANSACTION_ERRORS (snd (snd (post_transactions p e b w))) = Suc (TRANSACTION_ERRORS w)
        \<and> transactions (snd (snd (post_transactions p e b w))) = transactions w @ [row]
        \<and> td_transaction_id row = generate_transaction_id e
        \<and> cache (snd (snd (post_transactions p e b w))) = cache w)
   \<and> (NotificationCreate n = Inr c
      \<and> commit_notification e (new_NotificationDB (generate_notification_id e) c) (notifications v)
          = Inr (nrow, ntbl)
      \<and> refresh_exc e = None \<and> (setex_exc e = Some m \<or> setex_exc e = None \<and> expire_exc e = Some m)
    \<longrightarrow> status_code (fst (post_notify p e n v)) = 500
        \<and> NOTIFICATION_ERRORS (snd (snd (post_notify p e n v))) = Suc (NOTIFICATION_ERRORS v)
        \<and> notifications (snd (snd (post_notify p e n v))) = notifications v @ [nrow]
        \<and> nd_notification_id nrow = generate_notification_id e)"
proof (intro conjI impI)
  assume h: "TransactionCreate p b = Inr t
      \<and> commit_transaction e (new_TransactionDB p (generate_transaction_id e) t) (transactions w)
          = Inr (row, tbl)
      \<and> refresh_exc e = None \<and> setex_exc e = Some m"
  then have c: "create_transaction p e t [] w = create_transaction_except m t [] (w\<lparr>transactions := tbl\<rparr>)"
    using create_transaction_setex_fails by blast
  have r: "post_transactions p e b w =
         (Failed 500 (''Erro interno ao criar '' @ transacao), [],
          snd (snd (create_transaction_except m t [] (w\<lparr>transactions := tbl\<rparr>))))"
    using h c post_transactions_except by blast
  have tbl: "row = inserted_transaction e (transactions w) (new_TransactionDB p (generate_transaction_id e) t)"
      "tbl = transactions w @ [row]"
    using h commit_transaction_Inr by blast+
  show "status_code (fst (post_transactions p e b w)) = 500"
    by (simp add: r)
  show "TRANSACTION_ERRORS (snd (snd (post_transactions p e b w))) = Suc (TRANSACTION_ERRORS w)"
    by (simp add: r create_transaction_except_sel)
  show "transactions (snd (snd (post_transactions p e b w))) = transactions w @ [row]"
    by (simp add: r create_transaction_except_sel tbl(2))
  show "td_transaction_id row = generate_transaction_id e"
    by (simp add: tbl(1) inserted_transaction_def new_TransactionDB_def)
  show "cache (snd (snd (post_transactions p e b w))) = cache w"
    by (simp add: r create_transaction_except_sel)
next
  assume h: "NotificationCreate n = Inr c
      \<and> commit_notification e (new_NotificationDB (generate_notification_id e) c) (notifications v)
          = Inr (nrow, ntbl)
      \<and> refresh_exc e = None \<and> (setex_exc e = Some m \<or> setex_exc e = None \<and> expire_exc e = Some m)"
  then obtain w1 where c: "create_notification p e c v = create_notification_except m c [] w1"
    and w1: "notifications w1 = ntbl" "NOTIFICATION_ERRORS w1 = NOTIFICATION_ERRORS v"
    using create_notification_setex_fails [of e c v nrow ntbl m p]
      create_notification_expire_fails [of e c v nrow ntbl m p]
    by (elim conjE disjE) auto
  have r: "post_notify p e n v =
         (Failed 500 (''Erro interno ao criar '' @ notificacao), [],
          snd (snd (create_notification_except m c [] w1)))"
    using h c post_notify_except by blast
  have tbl: "nrow = inserted_notification e (notifications v) (new_NotificationDB (generate_notification_id e) c)"
      "ntbl = notifications v @ [nrow]"
    using h commit_notification_Inr by blast+
  show "status_code (fst (post_notify p e n v)) = 500"
    by (simp add: r)
  show "NOTIFICATION_ERRORS (snd (snd (post_notify p e n v))) = Suc (NOTIFICATION_ERRORS v)"
    by (simp add: r create_notification_except_sel w1)
  show "notifications (snd (snd (post_notify p e n v))) = notifications v @ [nrow]"
    by (simp add: r create_notification_except_sel w1 tbl(2))
  show "nd_notification_id nrow = generate_notification_id e"
    by (simp add: tbl(1) inserted_notification_def new_NotificationDB_def)
qed

theorem C2_witness:
  "TransactionCreate python0 body0 = Inr created0
   \<and> commit_transaction (env0\<lparr>setex_exc := Some ''redis is down'', commit_exc := None\<rparr>)
        (new_TransactionDB python0
           (generate_transaction_id (env0\<lparr>setex_exc := Some ''redis is down'', commit_exc := None\<rparr>)) created0)
        (transactions transaction_service0) = Inr (row0, [row0])
   \<and> NotificationCreate notify0 = Inr notification0
   \<and> commit_notification (env0\<lparr>setex_exc := Some ''redis is down'', commit_exc := None\<rparr>)
        (new_NotificationDB
           (generate_notification_id (env0\<lparr>setex_exc := Some ''redis is down'', commit_exc := None\<rparr>)) notification0)
        (notifications notification_service0) = Inr (nrow0, [nrow0])
   \<and> status_code (fst (post_transactions python0
         (env0\<lparr>setex_exc := Some ''redis is down'', commit_exc := None\<rparr>) body0 transaction_service0)) = 500
   \<and> transactions (snd (snd (post_transactions python0
         (env0\<lparr>setex_exc := Some ''redis is down'', commit_exc := None\<rparr>) body0 transaction_service0))) = [row0]
   \<and> TRANSACTION_ERRORS (snd (snd (post_transactions python0
         (env0\<lparr>setex_exc := Some ''redis is down'', commit_exc := None\<rparr>) body0 transaction_service0))) = 1
   \<and> status_code (fst (post_notify python0
         (env0\<lparr>setex_exc := Some ''redis is down'', commit_exc := None\<rparr>) notify0 notification_service0)) = 500
   \<and> notifications (snd (snd (post_notify python0
         (env0\<lparr>setex_exc := Some ''redis is down'', commit_exc := None\<rparr>) notify0 notification_service0))) = [nrow0]
   \<and> NOTIFICATION_ERRORS (snd (snd (post_notify python0
         (env0\<lparr>setex_exc := Some ''redis is down'', commit_exc := None\<rparr>) notify0 notification_service0))) = 1"
  using C2_cache_failure_is_server_error [of python0 body0 created0
      "env0\<lparr>setex_exc := Some ''redis is down'', commit_exc := None\<rparr>" transaction_service0
      row0 "[row0]" "''redis is down''" notify0 notification0 notification_service0 nrow0 "[nrow0]"]
    TransactionCreate0 NotificationCreate0
    commit_transaction0 [of "Some ''redis is down''"] commit_notification0 [of "Some ''redis is down''"]
  by (simp add: generate_transaction_id0 generate_notification_id0 env0_sel
      transaction_service0_def notification_service0_def)

lemma post_transactions_table:
  assumes "TransactionCreate p b = Inr t"
    and "commit_transaction e (new_TransactionDB p (generate_transaction_id e) t) (transactions w)
          = Inr (row, tbl)"
  shows "transactions (snd (snd (post_transactions p e b w))) = transactions w @ [row]"
proof -
  have "transactions (snd (snd (create_transaction p e t [] w))) = tbl"
    using assms(2) by (rule create_transaction_table)
  then have "transactions (snd (snd (post_transactions p e b w))) = tbl"
    using assms(1)
    by (auto simp: post_transactions_def split: prod.splits sum.splits HTTPException.splits)
  then show ?thesis
    using assms(2) commit_transaction_Inr by blast
qed

lemma post_notify_table:
  assumes "NotificationCreate n = Inr c"
    and "commit_notification e (new_NotificationDB (generate_notification_id e) c) (notifications v)
          = Inr (row, tbl)"
  shows "notifications (snd (snd (post_notify p e n v))) = notifications v @ [row]"
proof -
  have "notifications (snd (snd (create_notification p e c v))) = tbl"
    using assms(2)
    by (simp add: create_notification_def Let_def create_notification_except_sel logger_def
        split: sum.splits)
  then have "notifications (snd (snd (post_notify p e n v))) = tbl"
    using assms(1)
    by (auto simp: post_notify_def split: prod.splits sum.splits HTTPException.splits)
  then show ?thesis
    using assms(2) commit_notification_Inr by blast
qed

lemma commit_fails0:
  "commit_transaction (env0\<lparr>setex_exc := x, commit_exc := Some m\<rparr>) r tbl = Inl m"
  "commit_notification (env0\<lparr>setex_exc := x, commit_exc := Some m\<rparr>) r' tbl' = Inl m"
  by (simp_all add: commit_transaction_def commit_notification_def commit_def env0_sel)

text \<open>
  C3. When the commit raises, the handler answers 500, counts an error, and leaves
  the cache and the table as they were: the cache is written only after the commit.
  A row that is committed has status \<open>pending\<close> (transactions) or \<open>unread\<close>
  (notifications).
\<close>

theorem C3_store_failure_leaves_no_cache_entry:
  "(TransactionCreate p b = Inr t
      \<and> commit_transaction e (new_TransactionDB p (generate_transaction_id e) t) (transactions w) = Inl m
    \<longrightarrow> status_code (fst (post_transactions p e b w)) = 500
        \<and> TRANSACTION_ERRORS (snd (snd (post_transactions p e b w))) = Suc (TRANSACTION_ERRORS w)
        \<and> cache (snd (snd (post_transactions p e b w))) = cache w
        \<and> transactions (snd (snd (post_transactions p e b w))) = transactions w)
   \<and> (TransactionCreate p b = Inr t
      \<and> commit_transaction e (new_TransactionDB p (generate_transaction_id e) t) (transactions w)
          = Inr (row, tbl)
    \<longrightarrow> td_status row = ''pending''
        \<and> transactions (snd (snd (post_transactions p e b w))) = transactions w @ [row])
   \<and> (NotificationCreate n = Inr c
      \<and> commit_notification e (new_NotificationDB (generate_notification_id e) c) (notifications v) = Inl m
    \<longrightarrow> status_code (fst (post_notify p e n v)) = 500
        \<and> NOTIFICATION_ERRORS (snd (snd (post_notify p e n v))) = Suc (NOTIFICATION_ERRORS v)
        \<and> cache (snd (snd (post_notify p e n v))) = cache v
        \<and> notifications (snd (snd (post_notify p e n v))) = notifications v)
   \<and> (NotificationCreate n = Inr c
      \<and> commit_notification e (new_NotificationDB (generate_notification_id e) c) (notifications v)
          = Inr (nrow, ntbl)
    \<longrightarrow> nd_status nrow = ''unread''
        \<and> notifications (snd (snd (post_notify p e n v))) = notifications v @ [nrow])"
proof (intro conjI impI; elim conjE)
  assume v: "TransactionCreate p b = Inr t"
    and f: "commit_transaction e (new_TransactionDB p (generate_transaction_id e) t) (transactions w) = Inl m"
  from f have "create_transaction p e t [] w = create_transaction_except m t [] w"
    by (rule create_transaction_commit_fails)
  then have r: "post_transactions p e b w =
         (Failed 500 (''Erro interno ao criar '' @ transacao), [],
          snd (snd (create_transaction_except m t [] w)))"
    using v post_transactions_except by blast
  show "status_code (fst (post_transactions p e b w)) = 500"
    by (simp add: r)
  show "TRANSACTION_ERRORS (snd (snd (post_transactions p e b w))) = Suc (TRANSACTION_ERRORS w)"
    by (simp add: r create_transaction_except_sel)
  show "cache (snd (snd (post_transactions p e b w))) = cache w"
    by (simp add: r create_transaction_except_sel)
  show "transactions (snd (snd (post_transactions p e b w))) = transactions w"
    by (simp add: r create_transaction_except_sel)
next
  assume v: "TransactionCreate p b = Inr t"
    and s: "commit_transaction e (new_TransactionDB p (generate_transaction_id e) t) (transactions w)
             = Inr (row, tbl)"
  have "row = inserted_transaction e (transactions w) (new_TransactionDB p (generate_transaction_id e) t)"
    using s commit_transaction_Inr by blast
  then show "td_status row = ''pending''"
    by (simp add: inserted_transaction_def new_TransactionDB_def)
  show "transactions (snd (snd (post_transactions p e b w))) = transactions w @ [row]"
    using v s by (rule post_transactions_table)
next
  assume v: "NotificationCreate n = Inr c"
    and f: "commit_notification e (new_NotificationDB (generate_notification_id e) c) (notifications v) = Inl m"
  from f have "create_notification p e c v = create_notification_except m c [] v"
    by (rule create_notification_commit_fails)
  then have r: "post_notify p e n v =
         (Failed 500 (''Erro interno ao criar '' @ notificacao), [],
          snd (snd (create_notification_except m c [] v)))"
    using v post_notify_except by blast
  show "status_code (fst (post_notify p e n v)) = 500"
    by (simp add: r)
  show "NOTIFICATION_ERRORS (snd (snd (post_notify p e n v))) = Suc (NOTIFICATION_ERRORS v)"
    by (simp add: r create_notification_except_sel)
  show "cache (snd (snd (post_notify p e n v))) = cache v"
    by (simp add: r create_notification_except_sel)
  show "notifications (snd (snd (post_notify p e n v))) = notifications v"
    by (simp add: r create_notification_except_sel)
next
  assume v: "NotificationCreate n = Inr c"
    and s: "commit_notification e (new_NotificationDB (generate_notification_id e) c) (notifications v)
             = Inr (nrow, ntbl)"
  have "nrow = inserted_notification e (notifications v) (new_NotificationDB (generate_notification_id e) c)"
    using s commit_notification_Inr by blast
  then show "nd_status nrow = ''unread''"
    by (simp add: inserted_notification_def new_NotificationDB_def)
  show "notifications (snd (snd (post_notify p e n v))) = notifications v @ [nrow]"
    using v s by (rule post_notify_table)
qed

theorem C3_witness:
  "TransactionCreate python0 body0 = Inr created0
   \<and> commit_transaction (env0\<lparr>setex_exc := None, commit_exc := Some ''db is down''\<rparr>)
        (new_TransactionDB python0
           (generate_transaction_id (env0\<lparr>setex_exc := None, commit_exc := Some ''db is down''\<rparr>)) created0)
        (transactions transaction_service0) = Inl ''db is down''
   \<and> commit_transaction (env0\<lparr>setex_exc := None, commit_exc := None\<rparr>)
        (new_TransactionDB python0
           (generate_transaction_id (env0\<lparr>setex_exc := None, commit_exc := None\<rparr>)) created0)
        (transactions transaction_service0) = Inr (row0, [row0])
   \<and> NotificationCreate notify0 = Inr notification0
   \<and> commit_notification (env0\<lparr>setex_exc := None, commit_exc := Some ''db is down''\<rparr>)
        (new_NotificationDB
           (generate_notification_id (env0\<lparr>setex_exc := None, commit_exc := Some ''db is down''\<rparr>)) notification0)
        (notifications notification_service0) = Inl ''db is down''
   \<and> commit_notification (env0\<lparr>setex_exc := None, commit_exc := None\<rparr>)
        (new_NotificationDB
           (generate_notification_id (env0\<lparr>setex_exc := None, commit_exc := None\<rparr>)) notification0)
        (notifications notification_service0) = Inr (nrow0, [nrow0])
   \<and> status_code (fst (post_transactions python0
         (env0\<lparr>setex_exc := None, commit_exc := Some ''db is down''\<rparr>) body0 transaction_service0)) = 500
   \<and> TRANSACTION_ERRORS (snd (snd (post_transactions python0
         (env0\<lparr>setex_exc := None, commit_exc := Some ''db is down''\<rparr>) body0 transaction_service0))) = 1
   \<and> cache (snd (snd (post_transactions python0
         (env0\<lparr>setex_exc := None, commit_exc := Some ''db is down''\<rparr>) body0 transaction_service0))) = Map.empty
   \<and> transactions (snd (snd (post_transactions python0
         (env0\<lparr>setex_exc := None, commit_exc := Some ''db is down''\<rparr>) body0 transaction_service0))) = []
   \<and> td_status row0 = ''pending''
   \<and> transactions (snd (snd (post_transactions python0
         (env0\<lparr>setex_exc := None, commit_exc := None\<rparr>) body0 transaction_service0))) = [row0]
   \<and> status_code (fst (post_notify python0
         (env0\<lparr>setex_exc := None, commit_exc := Some ''db is down''\<rparr>) notify0 notification_service0)) = 500
   \<and> cache (snd (snd (post_notify python0
         (env0\<lparr>setex_exc := None, commit_exc := Some ''db is down''\<rparr>) notify0 notification_service0))) = Map.empty
   \<and> nd_status nrow0 = ''unread''
   \<and> notifications (snd (snd (post_notify python0
         (env0\<lparr>setex_exc := None, commit_exc := None\<rparr>) notify0 notification_service0))) = [nrow0]"
  using C3_store_failure_leaves_no_cache_entry [of python0 body0 created0
      "env0\<lparr>setex_exc := None, commit_exc := Some ''db is down''\<rparr>" transaction_service0
      "''db is down''" row0 "[row0]" notify0 notification0 notification_service0 nrow0 "[nrow0]"]
    C3_store_failure_leaves_no_cache_entry [of python0 body0 created0
      "env0\<lparr>setex_exc := None, commit_exc := None\<rparr>" transaction_service0
      "''db is down''" row0 "[row0]" notify0 notification0 notification_service0 nrow0 "[nrow0]"]
    TransactionCreate0 NotificationCreate0
    commit_transaction0 [of None] commit_notification0 [of None]
  by (simp add: generate_transaction_id0 generate_notification_id0 commit_fails0
      transaction_service0_def notification_service0_def)

section \<open>Health and currency\<close>

text \<open>
  C9. Whatever the two probes answer, \<^verbatim>\<open>health_check\<close> returns a response and
  raises nothing; its status is \<open>healthy\<close> exactly when both the \<^verbatim>\<open>SELECT 1\<close>
  and the ping returned, and \<open>degraded\<close> otherwise; each dependency is reported as
  \<open>healthy\<close> or as \<open>unhealthy: \<close> followed by the text of its exception.
\<close>

theorem C9_health_check_reports_and_never_raises:
  "\<exists>h. health_check e = Inr h
     \<and> (h_status h = ''healthy'' \<longleftrightarrow> select_1 e = Inr () \<and> ping e = Inr ())
     \<and> (h_status h \<noteq> ''healthy'' \<longleftrightarrow> h_status h = ''degraded'')
     \<and> h_database h = (case select_1 e of Inr _ \<Rightarrow> ''healthy'' | Inl m \<Rightarrow> ''unhealthy: '' @ m)
     \<and> h_redis h = (case ping e of Inr _ \<Rightarrow> ''healthy'' | Inl m \<Rightarrow> ''unhealthy: '' @ m)"
  by (auto simp: health_check_def try_except_def select_1_def ping_def Let_def split: option.splits)

theorem C9_witness:
  "(\<exists>h. health_check env0 = Inr h \<and> h_status h = ''healthy'' \<and> h_database h = ''healthy''
        \<and> h_redis h = ''healthy'')
   \<and> (\<exists>h. health_check (env0\<lparr>ping_exc := Some ''refused''\<rparr>) = Inr h \<and> h_status h = ''degraded''
        \<and> h_database h = ''healthy'' \<and> h_redis h = ''unhealthy: refused'')"
proof -
  have a: "select_1 env0 = Inr ()" "ping env0 = Inr ()"
    "select_1 (env0\<lparr>ping_exc := Some ''refused''\<rparr>) = Inr ()"
    "ping (env0\<lparr>ping_exc := Some ''refused''\<rparr>) = Inl ''refused''"
    by (simp_all add: select_1_def ping_def env0_def)
  show ?thesis
    using C9_health_check_reports_and_never_raises [of env0]
      C9_health_check_reports_and_never_raises [of "env0\<lparr>ping_exc := Some ''refused''\<rparr>"]
    by (auto simp: a)
qed

lemma fst_post_transactions:
  "fst (post_transactions p e b w) =
     (case TransactionCreate p b of
        Inl errs \<Rightarrow> Unprocessable errs
      | Inr t \<Rightarrow>
          (case fst (create_transaction p e t [] w) of
             Inl (HTTPException c d) \<Rightarrow> Failed c d
           | Inr r \<Rightarrow> Returned 201 r))"
  by (simp add: post_transactions_def HTTP_201_CREATED_def
      split: sum.splits prod.splits HTTPException.splits)

lemma fst_post_notify:
  "fst (post_notify p e b w) =
     (case NotificationCreate b of
        Inl errs \<Rightarrow> Unprocessable errs
      | Inr t \<Rightarrow>
          (case fst (create_notification p e t w) of
             Inl (HTTPException c d) \<Rightarrow> Failed c d
           | Inr r \<Rightarrow> Returned 201 r))"
  by (simp add: post_notify_def HTTP_201_CREATED_def
      split: sum.splits prod.splits HTTPException.splits)

lemma TransactionCreate_currency:
  assumes "tb_currency b = Some c" and "TransactionCreate p b = Inr t"
  shows "length c = 3" and "tc_currency t = str_upper p c"
proof -
  show len: "length c = 3"
    using assms TransactionCreate_invalid [of b p] by auto
  show "tc_currency t = str_upper p c"
    using assms len
    by (auto simp: TransactionCreate_def field_currency_def validate_currency_def
        split: sum.splits if_splits)
qed

lemma post_transactions_stores_model:
  assumes v: "TransactionCreate p b = Inr t"
  shows "transactions (snd (snd (post_transactions p e b w))) = transactions w
         \<or> (\<exists>row. transactions (snd (snd (post_transactions p e b w))) = transactions w @ [row]
               \<and> td_currency row = tc_currency t)"
proof (cases "commit_transaction e (new_TransactionDB p (generate_transaction_id e) t) (transactions w)")
  case (Inl m)
  then have "create_transaction p e t [] w = create_transaction_except m t [] w"
    by (rule create_transaction_commit_fails)
  then show ?thesis
    using v post_transactions_except [of p b t e w m w]
    by (simp add: create_transaction_except_sel)
next
  case (Inr a)
  then obtain row tbl where
    a: "commit_transaction e (new_TransactionDB p (generate_transaction_id e) t) (transactions w)
          = Inr (row, tbl)"
    by (cases a) auto
  then have "row = inserted_transaction e (transactions w)
                     (new_TransactionDB p (generate_transaction_id e) t)"
    using commit_transaction_Inr by blast
  then have "td_currency row = tc_currency t"
    by (simp add: inserted_transaction_def new_TransactionDB_def)
  then show ?thesis
    using post_transactions_table [OF v a] by blast
qed

lemma post_transactions_Returned:
  assumes v: "TransactionCreate p b = Inr t"
    and ret: "fst (post_transactions p e b w) = Returned code r"
  shows "\<exists>row tasks w'. create_transaction p e t [] w = (Inr r, tasks, w')
           \<and> post_transactions p e b w = (Returned 201 r, tasks, w')
           \<and> row = inserted_transaction e (transactions w)
                     (new_TransactionDB p (generate_transaction_id e) t)
           \<and> transaction_from_orm row = Inr r
           \<and> transactions w' = transactions w @ [row]"
proof -
  obtain tasks w' where cr: "create_transaction p e t [] w = (Inr r, tasks, w')"
    and pw: "post_transactions p e b w = (Returned 201 r, tasks, w')"
    using v ret
    by (auto simp: post_transactions_def HTTP_201_CREATED_def
        split: prod.splits sum.splits HTTPException.splits)
  from create_transaction_Inr [OF cr] obtain row where
    row: "commit_transaction e (new_TransactionDB p (generate_transaction_id e) t) (transactions w)
            = Inr (row, transactions w @ [row])"
      "transaction_from_orm row = Inr r" "transactions w' = transactions w @ [row]"
    by blast
  have "row = inserted_transaction e (transactions w)
                (new_TransactionDB p (generate_transaction_id e) t)"
    using row(1) commit_transaction_Inr by blast
  with cr pw row show ?thesis by blast
qed

lemma transaction_from_orm_Inr:
  "transaction_from_orm row = Inr r \<Longrightarrow>
     tr_transaction_id r = td_transaction_id row \<and> tr_user_id r = td_user_id row
     \<and> tr_amount r = td_amount row \<and> tr_currency r = td_currency row
     \<and> tr_transaction_type r = td_transaction_type row \<and> tr_status r = td_status row
     \<and> tr_description r = td_description row \<and> td_metadata row = None \<and> tr_metadata r = None"
  by (auto simp: transaction_from_orm_def new_TransactionResponse_def optional_dict_def
      split: option.splits sum.splits)

lemma post_transactions_Returned_currency:
  assumes v: "TransactionCreate p b = Inr t"
    and ret: "fst (post_transactions p e b w) = Returned code r"
  shows "tr_currency r = tc_currency t
         \<and> (\<exists>row \<in> set (transactions (snd (snd (post_transactions p e b w)))).
               td_transaction_id row = tr_transaction_id r \<and> td_currency row = tc_currency t)"
proof -
  from post_transactions_Returned [OF v ret] obtain row tasks w' where
    h: "post_transactions p e b w = (Returned 201 r, tasks, w')"
      "row = inserted_transaction e (transactions w)
               (new_TransactionDB p (generate_transaction_id e) t)"
      "transaction_from_orm row = Inr r" "transactions w' = transactions w @ [row]"
    by blast
  have "td_currency row = tc_currency t"
    by (simp add: h(2) inserted_transaction_def new_TransactionDB_def)
  then show ?thesis
    using transaction_from_orm_Inr [OF h(3)] h(1,4) by auto
qed

text \<open>
  C8. A body whose currency is present and not three characters long is refused
  with 422 and nothing is written. For a currency of three characters, the
  validated model carries the upper-cased text, every row the request adds to the
  table carries it, and so does the response of a successful creation.
\<close>

theorem C8_currency_length_and_upper_case:
  "(tb_currency b = Some c \<and> length c \<noteq> 3
    \<longrightarrow> (\<exists>errs. errs \<noteq> [] \<and> post_transactions p e b w = (Unprocessable errs, [], w)))
   \<and> (tb_currency b = Some c \<and> TransactionCreate p b = Inr t
    \<longrightarrow> length c = 3 \<and> tc_currency t = str_upper p c
        \<and> (transactions (snd (snd (post_transactions p e b w))) = transactions w
           \<or> (\<exists>row. transactions (snd (snd (post_transactions p e b w))) = transactions w @ [row]
                 \<and> td_currency row = str_upper p c))
        \<and> (\<forall>code r. fst (post_transactions p e b w) = Returned code r
              \<longrightarrow> tr_currency r = str_upper p c
                  \<and> (\<exists>row \<in> set (transactions (snd (snd (post_transactions p e b w)))).
                        td_transaction_id row = tr_transaction_id r
                        \<and> td_currency row = str_upper p c)))"
proof -
  have one: "\<exists>errs. errs \<noteq> [] \<and> post_transactions p e b w = (Unprocessable errs, [], w)"
    if h: "tb_currency b = Some c" "length c \<noteq> 3"
  proof -
    obtain errs where "errs \<noteq> []" "TransactionCreate p b = Inl errs"
      using h TransactionCreate_invalid [of b p] by auto
    then show ?thesis
      by (auto simp: post_transactions_def)
  qed
  have two: "length c = 3 \<and> tc_currency t = str_upper p c
        \<and> (transactions (snd (snd (post_transactions p e b w))) = transactions w
           \<or> (\<exists>row. transactions (snd (snd (post_transactions p e b w))) = transactions w @ [row]
                 \<and> td_currency row = str_upper p c))
        \<and> (\<forall>code r. fst (post_transactions p e b w) = Returned code r
              \<longrightarrow> tr_currency r = str_upper p c
                  \<and> (\<exists>row \<in> set (transactions (snd (snd (post_transactions p e b w)))).
                        td_transaction_id row = tr_transaction_id r
                        \<and> td_currency row = str_upper p c))"
    if c: "tb_currency b = Some c" and v: "TransactionCreate p b = Inr t"
    using TransactionCreate_currency [OF c v] post_transactions_stores_model [OF v, of e w]
      post_transactions_Returned_currency [OF v, of e w]
    by simp
  show ?thesis
    using one two by blast
qed

theorem C8_witness:
  "tb_currency (body0\<lparr>tb_currency := Some ''euro''\<rparr>) = Some ''euro'' \<and> length ''euro'' \<noteq> 3
   \<and> (\<exists>errs. errs \<noteq> [] \<and> post_transactions python0 env0 (body0\<lparr>tb_currency := Some ''euro''\<rparr>)
                 transaction_service0 = (Unprocessable errs, [], transaction_service0))
   \<and> tb_currency body0 = Some ''usd'' \<and> TransactionCreate python0 body0 = Inr created0
   \<and> tc_currency created0 = ''USD''
   \<and> fst (post_transactions python0 env0 body0 transaction_service0)
       = Returned 201 \<lparr>tr_id = 1, tr_transaction_id = ''TXN7abcd1234'', tr_user_id = ''u1'',
                        tr_amount = Fin 100, tr_currency = ''USD'', tr_transaction_type = ''credit'',
                        tr_status = ''pending'', tr_description = None, tr_metadata = None,
                        tr_created_at = 1, tr_updated_at = 1\<rparr>
   \<and> transactions (snd (snd (post_transactions python0 env0 body0 transaction_service0))) = [row0]
   \<and> td_currency row0 = str_upper python0 ''usd''"
proof -
  have env: "env0 = env0\<lparr>setex_exc := None, commit_exc := None\<rparr>"
    by (simp add: env0_def)
  have "fst (create_transaction python0 env0 created0 [] transaction_service0) =
        Inr \<lparr>tr_id = 1, tr_transaction_id = ''TXN7abcd1234'', tr_user_id = ''u1'',
               tr_amount = Fin 100, tr_currency = ''USD'', tr_transaction_type = ''credit'',
               tr_status = ''pending'', tr_description = None, tr_metadata = None,
               tr_created_at = 1, tr_updated_at = 1\<rparr>"
    using commit_transaction0 [of None] generate_transaction_id0 [of None None]
    unfolding env [symmetric]
    by (simp add: create_transaction_def transaction_service0_def refresh_def setex_def
        env0_def Let_def transaction_from_orm_def new_TransactionResponse_def row0_def)
  then have ret: "fst (post_transactions python0 env0 body0 transaction_service0)
       = Returned 201 \<lparr>tr_id = 1, tr_transaction_id = ''TXN7abcd1234'', tr_user_id = ''u1'',
                        tr_amount = Fin 100, tr_currency = ''USD'', tr_transaction_type = ''credit'',
                        tr_status = ''pending'', tr_description = None, tr_metadata = None,
                        tr_created_at = 1, tr_updated_at = 1\<rparr>"
    by (simp add: fst_post_transactions TransactionCreate0)
  have tbl: "transactions (snd (snd (post_transactions python0 env0 body0 transaction_service0)))
               = [row0]"
    using post_transactions_table [OF TransactionCreate0, of env0 transaction_service0 row0 "[row0]"]
      commit_transaction0 [of None] generate_transaction_id0 [of None None]
    unfolding env [symmetric]
    by (simp add: transaction_service0_def)
  have up: "td_currency row0 = str_upper python0 ''usd''" "tc_currency created0 = ''USD''"
    by (simp_all add: row0_def created0_def python0_def ascii_upper_def)
  have cur: "tb_currency (body0\<lparr>tb_currency := Some ''euro''\<rparr>) = Some ''euro''"
    "tb_currency body0 = Some ''usd''"
    by (simp_all add: body0_def)
  have "\<exists>errs. errs \<noteq> [] \<and> post_transactions python0 env0 (body0\<lparr>tb_currency := Some ''euro''\<rparr>)
                 transaction_service0 = (Unprocessable errs, [], transaction_service0)"
    using C8_currency_length_and_upper_case [of "body0\<lparr>tb_currency := Some ''euro''\<rparr>" "''euro''"
        python0 env0 transaction_service0 created0] cur(1)
    by simp
  then show ?thesis
    using TransactionCreate0 ret tbl up cur by simp
qed

section \<open>Marking a notification as read\<close>

lemma mark_notification_as_read_not_found:
  assumes "\<forall>r \<in> set (notifications w). \<not> matches nid r"
  shows "mark_notification_as_read e nid w =
           (case execute_exc e of
              None \<Rightarrow> (Inl (HTTPException 404 (Notificacao @ '' '' @ nao @ '' encontrada'')), w)
            | Some m \<Rightarrow> mark_notification_as_read_except m nid w)"
proof -
  have "filter (matches nid) (notifications w) = []"
    using assms by (simp add: filter_empty_conv)
  then show ?thesis
    by (simp add: mark_notification_as_read_def update_read_def HTTP_404_NOT_FOUND_def
        split: option.splits)
qed

text \<open>
  What does hold when no active row has the identifier: whatever the surroundings
  answer, the table and the cache are left as they were, so neither cache key is
  deleted; and on surroundings in which the UPDATE is executed the handler raises
  the HTTPException 404.
\<close>

lemma unknown_identifier_without_invalidation:
  assumes "\<forall>r \<in> set (notifications w). \<not> (nd_notification_id r = nid \<and> nd_is_active r = Some True)"
  shows "cache (snd (mark_notification_as_read e nid w)) = cache w
     \<and> notifications (snd (mark_notification_as_read e nid w)) = notifications w
     \<and> (execute_exc e = None \<longrightarrow>
           mark_notification_as_read e nid w =
             (Inl (HTTPException 404 (Notificacao @ '' '' @ nao @ '' encontrada'')), w))"
  using mark_notification_as_read_not_found [of w nid e] assms
  by (auto simp: matches_def mark_notification_as_read_except_def logger_def split: option.splits)

lemma mark_notification_as_read_execute_raises:
  "execute_exc e = Some m \<Longrightarrow>
     mark_notification_as_read e nid w = mark_notification_as_read_except m nid w"
  by (simp add: mark_notification_as_read_def update_read_def)

lemma mark_notification_as_read_except_sel:
  "fst (mark_notification_as_read_except m nid w) =
     Inl (HTTPException 500 (''Erro interno ao marcar '' @ notificacao @ '' como lida''))"
  "notifications (snd (mark_notification_as_read_except m nid w)) = notifications w"
  "cache (snd (mark_notification_as_read_except m nid w)) = cache w"
  by (simp_all add: mark_notification_as_read_except_def logger_def
      HTTP_500_INTERNAL_SERVER_ERROR_def)

text \<open>
  C7 fails on the code. The handler hands \<^verbatim>\<open>db.execute\<close> the UPDATE as a plain
  \<^verbatim>\<open>str\<close>; the call raises before the table is consulted, and an identifier that
  no record has is answered with the 500 of \<^verbatim>\<open>except Exception\<close>, not with 404.
  Nothing is deleted from the cache.
\<close>

theorem C7_unknown_identifier_is_answered_500:
  "notifications stored0 = [nrow0] \<and> nd_notification_id nrow0 \<noteq> ''unknown''
   \<and> fst (mark_notification_as_read env1 ''unknown'' stored0)
       = Inl (HTTPException 500 (''Erro interno ao marcar '' @ notificacao @ '' como lida''))
   \<and> fst (mark_notification_as_read env1 ''unknown'' stored0)
       \<noteq> Inl (HTTPException 404 (Notificacao @ '' '' @ nao @ '' encontrada''))
   \<and> notifications (snd (mark_notification_as_read env1 ''unknown'' stored0))
       = notifications stored0
   \<and> cache (snd (mark_notification_as_read env1 ''unknown'' stored0)) = cache stored0"
proof -
  have e: "execute_exc env1 =
             Some ''Textual SQL expression should be explicitly declared as text()''"
    by (simp add: env1_def)
  have h: "notifications stored0 = [nrow0]" "nd_notification_id nrow0 \<noteq> ''unknown''"
    by (simp_all add: stored0_def nrow0_def)
  show ?thesis
    by (simp add: mark_notification_as_read_execute_raises [OF e]
        mark_notification_as_read_except_sel h)
qed

lemma new_NotificationResponse_set_read:
  assumes "nd_id x = Some i" and "nd_created_at x = Some c"
  shows "new_NotificationResponse (set_read e x) =
           Inr \<lparr>nr_id = i, nr_notification_id = nd_notification_id x, nr_user_id = nd_user_id x,
                 nr_type = nd_type x, nr_title = nd_title x, nr_message = nd_message x,
                 nr_status = ''read'', nr_priority = nd_priority x, nr_metadata = nd_metadata x,
                 nr_created_at = c, nr_updated_at = now_updated_at e,
                 nr_read_at = Some (now_read_at e)\<rparr>"
  using assms by (simp add: new_NotificationResponse_def set_read_def)

lemma mark_notification_as_read_found:
  assumes f: "filter (matches nid) (notifications w) = x # xs"
    and i: "nd_id x = Some i" and c: "nd_created_at x = Some c"
    and ok: "execute_exc e = None" "commit_exc e = None" "delete_record_exc e = None"
      "delete_user_exc e = None"
  shows "mark_notification_as_read e nid w =
     (Inr \<lparr>nr_id = i, nr_notification_id = nd_notification_id x, nr_user_id = nd_user_id x,
            nr_type = nd_type x, nr_title = nd_title x, nr_message = nd_message x,
            nr_status = ''read'', nr_priority = nd_priority x, nr_metadata = nd_metadata x,
            nr_created_at = c, nr_updated_at = now_updated_at e,
            nr_read_at = Some (now_read_at e)\<rparr>,
      logger Info (Notificacao @ '' marcada como lida'') [(''notification_id'', JStr nid)]
        (w\<lparr>notifications := map (\<lambda>r. if matches nid r then set_read e r else r) (notifications w),
           cache := (cache w)(''notification:'' @ nid := None,
                              ''user_notifications:'' @ nd_user_id x := None)\<rparr>))"
proof -
  have u: "nd_user_id (set_read e x) = nd_user_id x"
    by (simp add: set_read_def)
  show ?thesis
    by (simp add: mark_notification_as_read_def update_read_def ok f commit_def redis_delete_def
        new_NotificationResponse_set_read [OF i c] u Let_def)
qed

text \<open>
  What does hold on surroundings in which the UPDATE is executed and no later call
  raises: when an active row has the identifier, the handler returns the record with
  status \<open>read\<close>, a read timestamp and an update timestamp; in the table every
  active row with that identifier, whatever its status was, now has them, and no
  other row has changed; the cache holds neither the entry of the record nor the
  list of its user.
\<close>

lemma mark_as_read_when_the_update_is_executed:
  assumes "r \<in> set (notifications w)"
    and "nd_notification_id r = nid" and "nd_is_active r = Some True"
    and "\<forall>x \<in> set (notifications w). nd_id x \<noteq> None \<and> nd_created_at x \<noteq> None"
    and "execute_exc e = None" and "commit_exc e = None"
    and "delete_record_exc e = None" and "delete_user_exc e = None"
  shows "\<exists>resp w'. mark_notification_as_read e nid w = (Inr resp, w')
     \<and> nr_notification_id resp = nid \<and> nr_status resp = ''read''
     \<and> nr_read_at resp = Some (now_read_at e) \<and> nr_updated_at resp = now_updated_at e
     \<and> (\<exists>x \<in> set (notifications w). nd_notification_id x = nid \<and> nd_is_active x = Some True
            \<and> nr_user_id resp = nd_user_id x)
     \<and> notifications w' =
          map (\<lambda>x. if nd_notification_id x = nid \<and> nd_is_active x = Some True
                    then x\<lparr>nd_status := ''read'', nd_read_at := Some (now_read_at e),
                           nd_updated_at := Some (now_updated_at e)\<rparr>
                    else x) (notifications w)
     \<and> r\<lparr>nd_status := ''read'', nd_read_at := Some (now_read_at e),
          nd_updated_at := Some (now_updated_at e)\<rparr> \<in> set (notifications w')
     \<and> cache w' (''notification:'' @ nid) = None
     \<and> cache w' (''user_notifications:'' @ nr_user_id resp) = None"
proof -
  have "r \<in> set (filter (matches nid) (notifications w))"
    using assms(1-3) by (simp add: matches_def)
  then obtain x xs where f: "filter (matches nid) (notifications w) = x # xs"
    by (cases "filter (matches nid) (notifications w)") auto
  then have "x \<in> set (filter (matches nid) (notifications w))"
    by simp
  then have x: "x \<in> set (notifications w)" "nd_notification_id x = nid" "nd_is_active x = Some True"
    by (auto simp: matches_def)
  then obtain i c where ic: "nd_id x = Some i" "nd_created_at x = Some c"
    using assms(4) by auto
  define f :: "NotificationDB \<Rightarrow> NotificationDB"
    where "f = (\<lambda>x. if nd_notification_id x = nid \<and> nd_is_active x = Some True
                    then x\<lparr>nd_status := ''read'', nd_read_at := Some (now_read_at e),
                           nd_updated_at := Some (now_updated_at e)\<rparr>
                    else x)"
  define resp where "resp =
     \<lparr>nr_id = i, nr_notification_id = nd_notification_id x, nr_user_id = nd_user_id x,
      nr_type = nd_type x, nr_title = nd_title x, nr_message = nd_message x,
      nr_status = ''read'', nr_priority = nd_priority x, nr_metadata = nd_metadata x,
      nr_created_at = c, nr_updated_at = now_updated_at e,
      nr_read_at = Some (now_read_at e)\<rparr>"
  define w' where "w' =
     logger Info (Notificacao @ '' marcada como lida'') [(''notification_id'', JStr nid)]
        (w\<lparr>notifications := map f (notifications w),
           cache := (cache w)(''notification:'' @ nid := None,
                              ''user_notifications:'' @ nd_user_id x := None)\<rparr>)"
  have m: "(\<lambda>r. if matches nid r then set_read e r else r) = f"
    by (simp add: matches_def set_read_def fun_eq_iff f_def)
  have eq: "mark_notification_as_read e nid w = (Inr resp, w')"
    using mark_notification_as_read_found [OF f ic assms(5-8)]
    by (simp only: m resp_def w'_def)
  have tbl: "notifications w' = map f (notifications w)"
    by (simp add: w'_def logger_def)
  have "f r \<in> set (map f (notifications w))"
    using assms(1) by simp
  then have mem: "r\<lparr>nd_status := ''read'', nd_read_at := Some (now_read_at e),
          nd_updated_at := Some (now_updated_at e)\<rparr> \<in> set (notifications w')"
    using assms(2,3) by (simp add: f_def tbl)
  have c1: "cache w' (''notification:'' @ nid) = None"
    by (simp add: w'_def logger_def)
  have c2: "cache w' (''user_notifications:'' @ nr_user_id resp) = None"
    by (simp add: w'_def logger_def resp_def)
  have r1: "nr_notification_id resp = nid" "nr_status resp = ''read''"
    "nr_read_at resp = Some (now_read_at e)" "nr_updated_at resp = now_updated_at e"
    "nr_user_id resp = nd_user_id x"
    by (simp_all add: resp_def x)
  have "mark_notification_as_read e nid w = (Inr resp, w')
     \<and> nr_notification_id resp = nid \<and> nr_status resp = ''read''
     \<and> nr_read_at resp = Some (now_read_at e) \<and> nr_updated_at resp = now_updated_at e
     \<and> (\<exists>x \<in> set (notifications w). nd_notification_id x = nid \<and> nd_is_active x = Some True
            \<and> nr_user_id resp = nd_user_id x)
     \<and> notifications w' = map f (notifications w)
     \<and> r\<lparr>nd_status := ''read'', nd_read_at := Some (now_read_at e),
          nd_updated_at := Some (now_updated_at e)\<rparr> \<in> set (notifications w')
     \<and> cache w' (''notification:'' @ nid) = None
     \<and> cache w' (''user_notifications:'' @ nr_user_id resp) = None"
    using eq r1 x tbl mem c1 c2 by blast
  then show ?thesis
    unfolding f_def by blast
qed

text \<open>
  C6 fails on the code. The handler hands \<^verbatim>\<open>db.execute\<close> the UPDATE as a plain
  \<^verbatim>\<open>str\<close>; the call raises, \<^verbatim>\<open>except Exception\<close> answers 500, and the stored
  unread notification keeps its status and has no read timestamp, while both cache
  entries stay where they were.
\<close>

theorem C6_mark_as_read_is_answered_500:
  "notifications stored0 = [nrow0] \<and> nd_notification_id nrow0 = ''NOT7abcd1234''
   \<and> nd_is_active nrow0 = Some True \<and> nd_status nrow0 = ''unread'' \<and> nd_read_at nrow0 = None
   \<and> fst (mark_notification_as_read env1 ''NOT7abcd1234'' stored0)
       = Inl (HTTPException 500 (''Erro interno ao marcar '' @ notificacao @ '' como lida''))
   \<and> notifications (snd (mark_notification_as_read env1 ''NOT7abcd1234'' stored0)) = [nrow0]
   \<and> cache (snd (mark_notification_as_read env1 ''NOT7abcd1234'' stored0))
        ''notification:NOT7abcd1234'' = Some (3600, ''NOT7abcd1234'')
   \<and> cache (snd (mark_notification_as_read env1 ''NOT7abcd1234'' stored0))
        ''user_notifications:u1'' = Some (60, ''[]'')"
proof -
  have e: "execute_exc env1 =
             Some ''Textual SQL expression should be explicitly declared as text()''"
    by (simp add: env1_def)
  have h: "notifications stored0 = [nrow0]" "nd_notification_id nrow0 = ''NOT7abcd1234''"
    "nd_is_active nrow0 = Some True" "nd_status nrow0 = ''unread''" "nd_read_at nrow0 = None"
    "cache stored0 ''notification:NOT7abcd1234'' = Some (3600, ''NOT7abcd1234'')"
    "cache stored0 ''user_notifications:u1'' = Some (60, ''[]'')"
    by (simp_all add: stored0_def nrow0_def)
  show ?thesis
    by (simp add: mark_notification_as_read_execute_raises [OF e]
        mark_notification_as_read_except_sel h)
qed

section \<open>The notifier\<close>

lemma getitem_transaction_data:
  "getitem (transaction_data_of tid t) ''transaction_id'' = Inr (JStr tid)"
  "getitem (transaction_data_of tid t) ''user_id'' = Inr (JStr (tc_user_id t))"
  "getitem (transaction_data_of tid t) ''amount'' = Inr (json_of_float (tc_amount t))"
  "getitem (transaction_data_of tid t) ''currency'' = Inr (JStr (tc_currency t))"
  by (simp_all add: getitem_def transaction_data_of_def)

lemma notification_payload_transaction_data:
  "notification_payload p (transaction_data_of tid t) =
     Inr [(''user_id'', JStr (tc_user_id t)),
          (''type'', JStr ''transaction_created''),
          (''title'', JStr (''Nova '' @ Transacao)),
          (''message'', JStr (Transacao @ '' de '' @ py_str p (json_of_float (tc_amount t)) @ '' ''
                               @ py_str p (JStr (tc_currency t)) @ '' foi criada'')),
          (''metadata'', JDict (transaction_data_of tid t))]"
  by (simp add: notification_payload_def getitem_transaction_data)

lemma send_notification_effects:
  assumes "notification_payload p d = Inr payload"
  shows "posts (snd (send_notification p client d w)) =
           (if json_compliant (JDict payload)
            then posts w @ [(NOTIFICATION_SERVICE_URL, payload)] else posts w)"
    and "transactions (snd (send_notification p client d w)) = transactions w"
    and "cache (snd (send_notification p client d w)) = cache w"
    and "TRANSACTION_CREATED (snd (send_notification p client d w)) = TRANSACTION_CREATED w"
    and "TRANSACTION_ERRORS (snd (send_notification p client d w)) = TRANSACTION_ERRORS w"
  using assms
  by (auto simp: send_notification_def send_notification_except_def logger_def Let_def
      split: sum.splits post_outcome.splits)

lemma client_post_Responded:
  "client_post client (url, payload) = Responded code \<Longrightarrow> json_compliant (JDict payload)"
  by (auto simp: client_post_def split: if_splits)

lemma send_notification_not_200:
  assumes "notification_payload p d = Inr payload"
    and "client_post client (NOTIFICATION_SERVICE_URL, payload) = Responded code"
    and "code \<noteq> 200"
  shows "send_notification p client d w =
           (Inr (), logger Warning (''Falha ao enviar '' @ notificacao)
                      [(''status_code'', JNum (real code))]
                      (w\<lparr>posts := posts w @ [(NOTIFICATION_SERVICE_URL, payload)]\<rparr>))"
  using assms client_post_Responded [OF assms(2)] by (simp add: send_notification_def)

lemma post_notify_Returned_201:
  "fst (post_notify p e n v) = Returned code r \<Longrightarrow> code = 201"
  by (auto simp: fst_post_notify split: sum.splits HTTPException.splits)

text \<open>
  C10. When the POST (a request that \<^verbatim>\<open>client.post\<close> has encoded and sent) is
  answered with any status code other than 200,
  \<^verbatim>\<open>send_notification\<close> logs the warning \<open>Falha ao enviar notificacao\<close> with that
  code. \<^verbatim>\<open>POST /notify\<close> answers a created notification with 201, never with 200;
  so when the answer is the one the notification service gives to a notification it
  has created, the warning is what the transaction service logs.
\<close>

theorem C10_created_notification_is_logged_as_failure:
  "(notification_payload p d = Inr payload
      \<and> client_post client (NOTIFICATION_SERVICE_URL, payload) = Responded code \<and> code \<noteq> 200
    \<longrightarrow> send_notification p client d w =
          (Inr (), logger Warning (''Falha ao enviar '' @ notificacao)
                     [(''status_code'', JNum (real code))]
                     (w\<lparr>posts := posts w @ [(NOTIFICATION_SERVICE_URL, payload)]\<rparr>)))
   \<and> (fst (post_notify p e n v) = Returned answered r \<longrightarrow> answered = 201)
   \<and> (notification_payload p d = Inr payload
      \<and> fst (post_notify p e n v) = Returned answered r
      \<and> client_post client (NOTIFICATION_SERVICE_URL, payload)
          = Responded (status_code (fst (post_notify p e n v)))
    \<longrightarrow> logs (snd (send_notification p client d w)) =
          logs w @ [\<lparr>level = Warning, event = ''Falha ao enviar '' @ notificacao,
                      kwargs = [(''status_code'', JNum 201)]\<rparr>])"
proof (intro conjI impI; (elim conjE)?)
  assume "notification_payload p d = Inr payload"
    "client_post client (NOTIFICATION_SERVICE_URL, payload) = Responded code" "code \<noteq> 200"
  then show "send_notification p client d w =
          (Inr (), logger Warning (''Falha ao enviar '' @ notificacao)
                     [(''status_code'', JNum (real code))]
                     (w\<lparr>posts := posts w @ [(NOTIFICATION_SERVICE_URL, payload)]\<rparr>))"
    by (rule send_notification_not_200)
next
  assume "fst (post_notify p e n v) = Returned answered r"
  then show "answered = 201"
    by (rule post_notify_Returned_201)
next
  assume a: "notification_payload p d = Inr payload"
    and b: "fst (post_notify p e n v) = Returned answered r"
    and c: "client_post client (NOTIFICATION_SERVICE_URL, payload)
              = Responded (status_code (fst (post_notify p e n v)))"
  have "answered = 201"
    using b by (rule post_notify_Returned_201)
  then have "client_post client (NOTIFICATION_SERVICE_URL, payload) = Responded 201"
    using b c by simp
  then have "send_notification p client d w =
           (Inr (), logger Warning (''Falha ao enviar '' @ notificacao)
                      [(''status_code'', JNum (real (201::nat)))]
                      (w\<lparr>posts := posts w @ [(NOTIFICATION_SERVICE_URL, payload)]\<rparr>))"
    using a by (intro send_notification_not_200) simp_all
  then show "logs (snd (send_notification p client d w)) =
          logs w @ [\<lparr>level = Warning, event = ''Falha ao enviar '' @ notificacao,
                      kwargs = [(''status_code'', JNum 201)]\<rparr>]"
    by (simp add: logger_def log_call_def)
qed

lemma post_notify0:
  "fst (post_notify python0 env0 notify0 notification_service0) =
     Returned 201 \<lparr>nr_id = 1, nr_notification_id = ''NOT7abcd1234'', nr_user_id = ''u1'',
                    nr_type = ''general'', nr_title = ''Hello'', nr_message = ''World'',
                    nr_status = ''unread'', nr_priority = ''normal'', nr_metadata = None,
                    nr_created_at = 1, nr_updated_at = 1, nr_read_at = None\<rparr>"
proof -
  have env: "env0 = env0\<lparr>setex_exc := None, commit_exc := None\<rparr>"
    by (simp add: env0_def)
  have "fst (create_notification python0 env0 notification0 notification_service0) =
     Inr \<lparr>nr_id = 1, nr_notification_id = ''NOT7abcd1234'', nr_user_id = ''u1'',
           nr_type = ''general'', nr_title = ''Hello'', nr_message = ''World'',
           nr_status = ''unread'', nr_priority = ''normal'', nr_metadata = None,
           nr_created_at = 1, nr_updated_at = 1, nr_read_at = None\<rparr>"
    using commit_notification0 [of None] generate_notification_id0 [of None None]
    unfolding env [symmetric]
    by (simp add: create_notification_def notification_service0_def refresh_def setex_def
        expire0_def env0_def Let_def new_NotificationResponse_def nrow0_def)
  then show ?thesis
    by (simp add: fst_post_notify NotificationCreate0)
qed

theorem C10_witness:
  "notification_payload python0 (transaction_data_of ''TXN7abcd1234'' created0)
     = Inr [(''user_id'', JStr ''u1''), (''type'', JStr ''transaction_created''),
            (''title'', JStr (''Nova '' @ Transacao)),
            (''message'', JStr (Transacao @ '' de 100.0 USD foi criada'')),
            (''metadata'', JDict (transaction_data_of ''TXN7abcd1234'' created0))]
   \<and> status_code (fst (post_notify python0 env0 notify0 notification_service0)) = 201
   \<and> logs (snd (send_notification python0
                   (\<lambda>request. Responded (status_code (fst (post_notify python0 env0 notify0
                                                             notification_service0))))
                   (transaction_data_of ''TXN7abcd1234'' created0) transaction_service0))
       = [\<lparr>level = Warning, event = ''Falha ao enviar '' @ notificacao,
            kwargs = [(''status_code'', JNum 201)]\<rparr>]"
proof -
  have pl: "notification_payload python0 (transaction_data_of ''TXN7abcd1234'' created0)
     = Inr [(''user_id'', JStr ''u1''), (''type'', JStr ''transaction_created''),
            (''title'', JStr (''Nova '' @ Transacao)),
            (''message'', JStr (Transacao @ '' de 100.0 USD foi criada'')),
            (''metadata'', JDict (transaction_data_of ''TXN7abcd1234'' created0))]"
    by (simp add: notification_payload_transaction_data created0_def python0_def str0_def
        json_of_float_def)
  have ok: "json_compliant (JDict
        [(''user_id'', JStr ''u1''), (''type'', JStr ''transaction_created''),
         (''title'', JStr (''Nova '' @ Transacao)),
         (''message'', JStr (Transacao @ '' de 100.0 USD foi criada'')),
         (''metadata'', JDict (transaction_data_of ''TXN7abcd1234'' created0))])"
    by (simp add: transaction_data_of_def created0_def json_of_float_def)
  show ?thesis
    using C10_created_notification_is_logged_as_failure [of python0
        "transaction_data_of ''TXN7abcd1234'' created0"
        "[(''user_id'', JStr ''u1''), (''type'', JStr ''transaction_created''),
          (''title'', JStr (''Nova '' @ Transacao)),
          (''message'', JStr (Transacao @ '' de 100.0 USD foi criada'')),
          (''metadata'', JDict (transaction_data_of ''TXN7abcd1234'' created0))]"
        "\<lambda>request. Responded (status_code (fst (post_notify python0 env0 notify0
                                                   notification_service0)))"
        201 transaction_service0 env0 notify0 notification_service0 201
        "\<lparr>nr_id = 1, nr_notification_id = ''NOT7abcd1234'', nr_user_id = ''u1'',
          nr_type = ''general'', nr_title = ''Hello'', nr_message = ''World'',
          nr_status = ''unread'', nr_priority = ''normal'', nr_metadata = None,
          nr_created_at = 1, nr_updated_at = 1, nr_read_at = None\<rparr>"] pl post_notify0 ok
    by (simp add: transaction_service0_def logger_def log_call_def client_post_def)
qed

lemma serve_post_transactions_Returned:
  assumes v: "TransactionCreate p b = Inr t"
    and ret: "fst (post_transactions p e b w) = Returned code r"
  shows "\<exists>w'. post_transactions p e b w
                = (Returned 201 r, [transaction_data_of (tr_transaction_id r) t], w')
           \<and> posts w' = posts w
           \<and> serve_post_transactions p e client b w
                = (Returned 201 r,
                   snd (send_notification p client (transaction_data_of (tr_transaction_id r) t) w'))"
proof -
  from post_transactions_Returned [OF v ret] obtain row tasks w' where
    h: "create_transaction p e t [] w = (Inr r, tasks, w')"
      "post_transactions p e b w = (Returned 201 r, tasks, w')"
      "row = inserted_transaction e (transactions w)
               (new_TransactionDB p (generate_transaction_id e) t)"
      "transaction_from_orm row = Inr r"
    by blast
  from create_transaction_Inr [OF h(1)]
  have t: "tasks = [transaction_data_of (generate_transaction_id e) t]" "posts w' = posts w"
    by auto
  have "tr_transaction_id r = generate_transaction_id e"
    using transaction_from_orm_Inr [OF h(4)]
    by (simp add: h(3) inserted_transaction_def new_TransactionDB_def)
  then show ?thesis
    using h(2) t by (simp add: serve_post_transactions_def split: prod.splits sum.splits)
qed

lemma TransactionCreate_amount:
  "TransactionCreate p b = Inr t \<Longrightarrow> tc_amount t = tb_amount b"
  by (auto simp: TransactionCreate_def field_amount_def split: sum.splits if_splits)

text \<open>
  What does hold: the answer of a creation that returns its record is 201 and does
  not depend on what the notifier meets, nor do the table and the cache; and when
  the amount is a finite number the background task issues exactly one POST, to the
  notification endpoint, with type \<open>transaction_created\<close> and a metadata
  dictionary that holds the identifier of the created transaction.
\<close>

lemma notifier_does_not_change_the_answer:
  assumes "fst (post_transactions p e b w) = Returned code r"
  shows "code = 201
     \<and> fst (serve_post_transactions p e client b w) = Returned 201 r
     \<and> transactions (snd (serve_post_transactions p e client b w))
         = transactions (snd (snd (post_transactions p e b w)))
     \<and> cache (snd (serve_post_transactions p e client b w))
         = cache (snd (snd (post_transactions p e b w)))"
proof -
  obtain t where v: "TransactionCreate p b = Inr t"
    using assms by (cases "TransactionCreate p b") (simp_all add: fst_post_transactions)
  from serve_post_transactions_Returned [OF v assms, of client] obtain w' where
    h: "post_transactions p e b w
          = (Returned 201 r, [transaction_data_of (tr_transaction_id r) t], w')"
      "serve_post_transactions p e client b w
          = (Returned 201 r,
             snd (send_notification p client (transaction_data_of (tr_transaction_id r) t) w'))"
    by blast
  note pl = notification_payload_transaction_data [of p "tr_transaction_id r" t]
  have "code = 201"
    using assms h(1) by simp
  moreover have "fst (serve_post_transactions p e client b w) = Returned 201 r"
    by (simp add: h(2))
  moreover have "transactions (snd (serve_post_transactions p e client b w))
         = transactions (snd (snd (post_transactions p e b w)))"
    by (simp add: h send_notification_effects(2) [OF pl])
  moreover have "cache (snd (serve_post_transactions p e client b w))
         = cache (snd (snd (post_transactions p e b w)))"
    by (simp add: h send_notification_effects(3) [OF pl])
  ultimately show ?thesis
    by simp
qed

lemma one_notification_when_amount_is_finite:
  assumes "fst (post_transactions p e b w) = Returned code r" and "tb_amount b = Fin x"
  shows "\<exists>payload md.
           posts (snd (serve_post_transactions p e client b w))
             = posts w @ [(NOTIFICATION_SERVICE_URL, payload)]
           \<and> map_of payload ''type'' = Some (JStr ''transaction_created'')
           \<and> map_of payload ''metadata'' = Some (JDict md)
           \<and> map_of md ''transaction_id'' = Some (JStr (tr_transaction_id r))"
proof -
  obtain t where v: "TransactionCreate p b = Inr t"
    using assms by (cases "TransactionCreate p b") (simp_all add: fst_post_transactions)
  have fin: "tc_amount t = Fin x"
    using TransactionCreate_amount [OF v] assms(2) by simp
  from serve_post_transactions_Returned [OF v assms(1), of client] obtain w' where
    h: "posts w' = posts w"
      "serve_post_transactions p e client b w
          = (Returned 201 r,
             snd (send_notification p client (transaction_data_of (tr_transaction_id r) t) w'))"
    by blast
  note pl = notification_payload_transaction_data [of p "tr_transaction_id r" t]
  have ok: "json_compliant (JDict
                  [(''user_id'', JStr (tc_user_id t)),
                   (''type'', JStr ''transaction_created''),
                   (''title'', JStr (''Nova '' @ Transacao)),
                   (''message'', JStr (Transacao @ '' de '' @ py_str p (json_of_float (tc_amount t))
                               @ '' '' @ py_str p (JStr (tc_currency t)) @ '' foi criada'')),
                   (''metadata'', JDict (transaction_data_of (tr_transaction_id r) t))])"
    by (simp add: transaction_data_of_def fin json_of_float_def)
  have "posts (snd (serve_post_transactions p e client b w))
             = posts w @ [(NOTIFICATION_SERVICE_URL,
                  [(''user_id'', JStr (tc_user_id t)),
                   (''type'', JStr ''transaction_created''),
                   (''title'', JStr (''Nova '' @ Transacao)),
                   (''message'', JStr (Transacao @ '' de '' @ py_str p (json_of_float (tc_amount t))
                               @ '' '' @ py_str p (JStr (tc_currency t)) @ '' foi criada'')),
                   (''metadata'', JDict (transaction_data_of (tr_transaction_id r) t))])]"
    using ok by (simp add: h send_notification_effects(1) [OF pl])
  moreover have "map_of (transaction_data_of (tr_transaction_id r) t) ''transaction_id''
                   = Some (JStr (tr_transaction_id r))"
    by (simp add: transaction_data_of_def)
  ultimately show ?thesis
    by simp
qed


section \<open>Reading a created transaction back\<close>

lemma commit_transaction_fresh:
  assumes "commit_transaction e (new_TransactionDB p (generate_transaction_id e) t) (transactions w)
       = Inr (row', transactions w @ [row'])"
  shows "generate_transaction_id e \<notin> set (map td_transaction_id (transactions w))"
proof -
  have "td_transaction_id (new_TransactionDB p (generate_transaction_id e) t) = generate_transaction_id e"
    by (simp add: new_TransactionDB_def)
  then show ?thesis
    using commit_transaction_Inr [OF assms] by simp
qed

lemma find_last:
  "find P xs = None \<Longrightarrow> P y \<Longrightarrow> find P (xs @ [y]) = Some y"
  by (induction xs) (auto split: if_splits)

lemma select_transaction_last:
  assumes fresh: "tid \<notin> set (map td_transaction_id tbl)"
    and row: "td_transaction_id row = tid" "td_is_active row = Some True"
    and ok: "execute_exc e' = None"
  shows "select_transaction e' tid (tbl @ [row]) = Inr (Some row)"
proof -
  have "find (\<lambda>x. td_transaction_id x = tid \<and> td_is_active x = Some True) tbl = None"
    using fresh by (auto simp: find_None_iff)
  then show ?thesis
    by (simp add: select_transaction_def ok find_last row)
qed

lemma new_TransactionResponse_of_created:
  assumes "transaction_from_orm row = Inr r"
  shows "new_TransactionResponse row (metadata_of_text p (td_metadata row)) = Inr r"
  using assms transaction_from_orm_Inr [OF assms]
  by (simp add: transaction_from_orm_def metadata_of_text_def)

lemma get_transaction_found:
  assumes sel: "select_transaction e' tid (transactions w') = Inr (Some row)"
    and resp: "new_TransactionResponse row (metadata_of_text p (td_metadata row)) = Inr r"
    and ok: "get_exc e' = None"
  shows "fst (get_transaction p e' tid w') = Inr r"
  using sel resp
  by (simp add: get_transaction_def redis_get_def ok Let_def logger_def)

text \<open>
  What does hold: a creation that is answered with its record has stored a row
  without metadata text, and reading that identifier from the table, when neither
  Redis nor the database raises, returns the very same record.
\<close>

lemma read_back_after_create:
  assumes ret: "fst (post_transactions p e b w) = Returned code r"
    and ok: "get_exc e' = None" "execute_exc e' = None"
  shows "fst (get_transaction p e' (tr_transaction_id r) (snd (snd (post_transactions p e b w))))
           = Inr r"
proof -
  obtain t where v: "TransactionCreate p b = Inr t"
    using ret by (cases "TransactionCreate p b") (simp_all add: fst_post_transactions)
  obtain tasks w' where cr: "create_transaction p e t [] w = (Inr r, tasks, w')"
    and pw: "snd (snd (post_transactions p e b w)) = w'"
    using v ret
    by (auto simp: post_transactions_def split: prod.splits sum.splits HTTPException.splits)
  from create_transaction_Inr [OF cr] obtain row where
    c: "commit_transaction e (new_TransactionDB p (generate_transaction_id e) t) (transactions w)
          = Inr (row, transactions w @ [row])"
    and orm: "transaction_from_orm row = Inr r"
    and tbl: "transactions w' = transactions w @ [row]"
    by (elim exE conjE)
  have r1: "row = inserted_transaction e (transactions w)
                    (new_TransactionDB p (generate_transaction_id e) t)"
    using commit_transaction_Inr [OF c] by simp
  have row: "td_transaction_id row = generate_transaction_id e" "td_is_active row = Some True"
    by (simp_all add: r1 inserted_transaction_def new_TransactionDB_def)
  have tid: "tr_transaction_id r = generate_transaction_id e"
    using transaction_from_orm_Inr [OF orm] row by simp
  have sel: "select_transaction e' (tr_transaction_id r) (transactions w') = Inr (Some row)"
    unfolding tid tbl
    using commit_transaction_fresh [OF c] row ok(2) by (rule select_transaction_last)
  show ?thesis
    unfolding pw
    using sel new_TransactionResponse_of_created [OF orm] ok(1) by (rule get_transaction_found)
qed

lemma get_transaction_execute_raises:
  assumes "get_exc e = None" and "execute_exc e = Some m"
  shows "fst (get_transaction p e tid w) =
           Inl (HTTPException 500 (''Erro interno ao buscar '' @ transacao))"
  using assms
  by (simp add: get_transaction_def redis_get_def select_transaction_def
      get_transaction_except_def Let_def HTTP_500_INTERNAL_SERVER_ERROR_def)

text \<open>
  C5 fails on the code. The example request of the spec with the empty dictionary
  as metadata is valid and is answered with 201; the row it stores has no metadata
  text (an empty dictionary is false in \<^verbatim>\<open>if transaction.metadata\<close>), and reading
  the transaction back from the table returns \<open>None\<close> as metadata, not the
  dictionary that was submitted. (The handler as written hands \<^verbatim>\<open>db.execute\<close> a
  plain \<^verbatim>\<open>str\<close>; on those surroundings the read is answered 500 and returns no
  record at all.)
\<close>

theorem C5_empty_metadata_is_not_read_back:
  "tb_metadata (body0\<lparr>tb_metadata := Some []\<rparr>) = Some []
   \<and> fst (post_transactions python0 env0 (body0\<lparr>tb_metadata := Some []\<rparr>) transaction_service0)
       = Returned 201 \<lparr>tr_id = 1, tr_transaction_id = ''TXN7abcd1234'', tr_user_id = ''u1'',
                        tr_amount = Fin 100, tr_currency = ''USD'', tr_transaction_type = ''credit'',
                        tr_status = ''pending'', tr_description = None, tr_metadata = None,
                        tr_created_at = 1, tr_updated_at = 1\<rparr>
   \<and> transactions (snd (snd (post_transactions python0 env0 (body0\<lparr>tb_metadata := Some []\<rparr>)
                                transaction_service0))) = [row0]
   \<and> td_metadata row0 = None
   \<and> (\<exists>r. fst (get_transaction python0 env0 ''TXN7abcd1234''
                   (snd (snd (post_transactions python0 env0 (body0\<lparr>tb_metadata := Some []\<rparr>)
                                transaction_service0)))) = Inr r
          \<and> tr_transaction_id r = ''TXN7abcd1234'' \<and> tr_user_id r = ''u1'' \<and> tr_amount r = Fin 100
          \<and> tr_status r = ''pending'' \<and> tr_metadata r = None
          \<and> tr_metadata r \<noteq> tb_metadata (body0\<lparr>tb_metadata := Some []\<rparr>))
   \<and> fst (get_transaction python0 env1 ''TXN7abcd1234''
             (snd (snd (post_transactions python0 env0 (body0\<lparr>tb_metadata := Some []\<rparr>)
                          transaction_service0))))
       = Inl (HTTPException 500 (''Erro interno ao buscar '' @ transacao))"
proof -
  let ?b = "body0\<lparr>tb_metadata := Some []\<rparr>"
  let ?t = "created0\<lparr>tc_metadata := Some []\<rparr>"
  let ?r = "\<lparr>tr_id = 1, tr_transaction_id = ''TXN7abcd1234'', tr_user_id = ''u1'',
             tr_amount = Fin 100, tr_currency = ''USD'', tr_transaction_type = ''credit'',
             tr_status = ''pending'', tr_description = None, tr_metadata = None,
             tr_created_at = 1, tr_updated_at = 1\<rparr>"
  have env: "env0 = env0\<lparr>setex_exc := None, commit_exc := None\<rparr>"
    by (simp add: env0_def)
  have v: "TransactionCreate python0 ?b = Inr ?t"
    by (simp add: TransactionCreate_def body0_def created0_def field_amount_def float_gt_def field_currency_def
        validate_currency_def validate_transaction_type_def allowed_transaction_types_def
        python0_def ascii_upper_def)
  have n: "new_TransactionDB python0 ''TXN7abcd1234'' ?t
             = new_TransactionDB python0 ''TXN7abcd1234'' created0"
    by (simp add: new_TransactionDB_def metadata_text_def truthy_dict_def created0_def)
  have c: "commit_transaction env0 (new_TransactionDB python0 (generate_transaction_id env0) ?t)
             (transactions transaction_service0) = Inr (row0, [row0])"
    using commit_transaction0 [of None] generate_transaction_id0 [of None None]
    unfolding env [symmetric]
    by (simp add: n transaction_service0_def)
  have "fst (create_transaction python0 env0 ?t [] transaction_service0) = Inr ?r"
    using c
    by (simp add: create_transaction_def refresh_def setex_def
        env0_def Let_def transaction_from_orm_def new_TransactionResponse_def row0_def)
  then have ret: "fst (post_transactions python0 env0 ?b transaction_service0) = Returned 201 ?r"
    by (simp add: fst_post_transactions v)
  have tbl: "transactions (snd (snd (post_transactions python0 env0 ?b transaction_service0)))
               = [row0]"
    using post_transactions_table [OF v c] by (simp add: transaction_service0_def)
  have e0: "get_exc env0 = None" "execute_exc env0 = None"
    by (simp_all add: env0_def)
  have "fst (get_transaction python0 env0 (tr_transaction_id ?r)
               (snd (snd (post_transactions python0 env0 ?b transaction_service0)))) = Inr ?r"
    using ret e0 by (rule read_back_after_create)
  then have rd: "fst (get_transaction python0 env0 ''TXN7abcd1234''
               (snd (snd (post_transactions python0 env0 ?b transaction_service0)))) = Inr ?r"
    by simp
  have e1: "get_exc env1 = None"
    "execute_exc env1 = Some ''Textual SQL expression should be explicitly declared as text()''"
    by (simp_all add: env1_def env0_def)
  note r500 = get_transaction_execute_raises [OF e1, of python0 "''TXN7abcd1234''"
      "snd (snd (post_transactions python0 env0 ?b transaction_service0))"]
  have "tb_metadata ?b = Some []" "td_metadata row0 = None"
    by (simp_all add: body0_def row0_def)
  then show ?thesis
    using ret tbl rd r500 by simp
qed

end
